theory Spec2Isabelle
  imports Complex_Main "HOL-Library.Multiset"
begin

section \<open>Conventions of the embedding\<close>

text \<open>
  The Go sources of the ATS resume analyzer are embedded function by function.
  \<^item> A Go \<open>string\<close> is a \<^typ>\<open>string\<close>, that is a list of bytes, and \<open>len\<close> is \<^const>\<open>length\<close>.
    The helpers of package \<open>strings\<close> are modelled on ASCII text: only the bytes
    \<open>A\<close>..\<open>Z\<close> have a lower-case form, and white space is one of the six ASCII space bytes.
  \<^item> A \<open>float64\<close> is a \<^typ>\<open>real\<close>: the arithmetic of the program is read exactly.
  \<^item> A Go \<open>map[string]bool\<close> used as a set is the list of its keys; a
    \<open>map[string]int\<close> of counters is an association list. Where the result of a
    \<open>range\<close> over a map depends on the order of the visit, that order is an argument.
  \<^item> \<open>time.Time\<close> is the number of nanoseconds since the Unix epoch, and every reading
    of \<open>time.Now()\<close> is an argument of the function that reads the clock.
  \<^item> A pattern of package \<open>regexp\<close> is a value of a datatype, matched by a backtracking
    search. \<open>time.Parse\<close> and the libraries that open PDF and DOCX files are arguments
    of the functions that call them.
\<close>

section \<open>Package strings\<close>

definition isUpper :: "char \<Rightarrow> bool" where
  "isUpper c = (65 \<le> (of_char c :: nat) \<and> (of_char c :: nat) \<le> 90)"

definition toLowerChar :: "char \<Rightarrow> char" where
  "toLowerChar c = (if isUpper c then char_of ((of_char c :: nat) + 32) else c)"

definition ToLower :: "string \<Rightarrow> string" where
  "ToLower s = map toLowerChar s"

fun HasPrefix :: "string \<Rightarrow> string \<Rightarrow> bool" where
  "HasPrefix s [] = True"
| "HasPrefix [] (p # ps) = False"
| "HasPrefix (c # cs) (p # ps) = (c = p \<and> HasPrefix cs ps)"

fun Contains :: "string \<Rightarrow> string \<Rightarrow> bool" where
  "Contains [] sub = (sub = [])"
| "Contains (c # cs) sub = (HasPrefix (c # cs) sub \<or> Contains cs sub)"

definition isSpace :: "char \<Rightarrow> bool" where
  "isSpace c = (c = CHR 0x09 \<or> c = CHR 0x0A \<or> c = CHR 0x0B \<or> c = CHR 0x0C
                \<or> c = CHR 0x0D \<or> c = CHR 0x20)"

definition TrimSpace :: "string \<Rightarrow> string" where
  "TrimSpace s = rev (dropWhile isSpace (rev (dropWhile isSpace s)))"

text \<open>\<open>strings.Split(s, sep)\<close> for a separator of one byte: one more piece than separators.\<close>

fun Split :: "string \<Rightarrow> char \<Rightarrow> string list" where
  "Split [] sep = [[]]"
| "Split (c # cs) sep =
     (if c = sep then [] # Split cs sep
      else (case Split cs sep of [] \<Rightarrow> [[c]] | piece # pieces \<Rightarrow> (c # piece) # pieces))"

fun Join :: "string list \<Rightarrow> string \<Rightarrow> string" where
  "Join [] sep = []"
| "Join [x] sep = x"
| "Join (x # y # ys) sep = x @ sep @ Join (y # ys) sep"

text \<open>\<open>strings.FieldsFunc(s, f)\<close>: the maximal runs of bytes that \<open>f\<close> rejects.\<close>

fun fields_loop :: "(char \<Rightarrow> bool) \<Rightarrow> string \<Rightarrow> string \<Rightarrow> string list" where
  "fields_loop f [] field = (if field = [] then [] else [field])"
| "fields_loop f (c # cs) field =
     (if f c then (if field = [] then [] else [field]) @ fields_loop f cs []
      else fields_loop f cs (field @ [c]))"

definition FieldsFunc :: "string \<Rightarrow> (char \<Rightarrow> bool) \<Rightarrow> string list" where
  "FieldsFunc s f = fields_loop f s []"

definition isLetter :: "char \<Rightarrow> bool" where
  "isLetter c = ((65 \<le> (of_char c :: nat) \<and> (of_char c :: nat) \<le> 90)
                 \<or> (97 \<le> (of_char c :: nat) \<and> (of_char c :: nat) \<le> 122))"

definition isNumber :: "char \<Rightarrow> bool" where
  "isNumber c = (48 \<le> (of_char c :: nat) \<and> (of_char c :: nat) \<le> 57)"

section \<open>services/nlp.go: string similarity and skill matching\<close>

definition min3 :: "int \<Rightarrow> int \<Rightarrow> int \<Rightarrow> int" where
  "min3 a b c = (if a < b then (if a < c then a else c) else if b < c then b else c)"

text \<open>
  The matrix of \<open>calculateStringSimilarity\<close>: \<open>len(s1)+1\<close> rows of \<open>len(s2)+1\<close> zeros,
  column 0 set to the row index, then row 0 set to the column index.
\<close>

definition new_matrix :: "nat \<Rightarrow> nat \<Rightarrow> int list list" where
  "new_matrix n1 n2 =
     (let matrix = map (\<lambda>i. (replicate (n2 + 1) 0)[0 := int i]) [0..<n1 + 1]
      in matrix[0 := fold (\<lambda>j row. row[j := int j]) [0..<n2 + 1] (matrix ! 0)])"

definition fill_cell :: "string \<Rightarrow> string \<Rightarrow> nat \<Rightarrow> nat \<Rightarrow> int list list \<Rightarrow> int list list" where
  "fill_cell s1 s2 i j matrix =
     (let cost = (if s1 ! (i - 1) \<noteq> s2 ! (j - 1) then 1 else 0)
      in matrix[i := (matrix ! i)[j := min3 (matrix ! (i - 1) ! j + 1)
                                          (matrix ! i ! (j - 1) + 1)
                                          (matrix ! (i - 1) ! (j - 1) + cost)]])"

text \<open>The two nested loops, \<open>i\<close> from 1 to \<open>len(s1)\<close> and \<open>j\<close> from 1 to \<open>len(s2)\<close>.\<close>

definition fill_matrix :: "string \<Rightarrow> string \<Rightarrow> int list list \<Rightarrow> int list list" where
  "fill_matrix s1 s2 matrix =
     fold (\<lambda>i m. fold (\<lambda>j m'. fill_cell s1 s2 i j m') [1..<length s2 + 1] m)
          [1..<length s1 + 1] matrix"

definition calculateStringSimilarity :: "string \<Rightarrow> string \<Rightarrow> real" where
  "calculateStringSimilarity s1 s2 =
     (if length s1 = 0 then real (length s2)
      else if length s2 = 0 then real (length s1)
      else let matrix = fill_matrix s1 s2 (new_matrix (length s1) (length s2));
               distance = matrix ! length s1 ! length s2;
               maxLen = max (length s1) (length s2)
           in if maxLen = 0 then 1 else 1 - real_of_int distance / real maxLen)"

text \<open>
  \<open>CalculateSkillMatch\<close>. \<open>resumeSet\<close> is the list of the lower-cased resume skills;
  the fuzzy scan leaves its loop at the first key above the threshold, so \<open>found\<close> is
  whether some key is, in whatever order the map is visited.
\<close>

fun skill_loop :: "string list \<Rightarrow> string list \<Rightarrow> string list \<times> string list
                    \<Rightarrow> string list \<times> string list" where
  "skill_loop resumeSet [] (matched, missing) = (matched, missing)"
| "skill_loop resumeSet (jobSkill # rest) (matched, missing) =
     (let jobSkillLower = ToLower jobSkill
      in if jobSkillLower \<in> set resumeSet
         then skill_loop resumeSet rest (matched @ [jobSkill], missing)
         else if list_ex (\<lambda>resumeSkill. calculateStringSimilarity resumeSkill jobSkillLower > 0.8)
                         resumeSet
         then skill_loop resumeSet rest (matched @ [jobSkill], missing)
         else skill_loop resumeSet rest (matched, missing @ [jobSkill]))"

definition CalculateSkillMatch :: "string list \<Rightarrow> string list \<Rightarrow> real \<times> string list \<times> string list" where
  "CalculateSkillMatch resumeSkills jobSkills =
     (let resumeSet = map ToLower resumeSkills;
          (matched, missing) = skill_loop resumeSet jobSkills ([], []);
          matchPercentage = (if length jobSkills > 0
                             then real (length matched) / real (length jobSkills) * 100
                             else 0)
      in (matchPercentage, matched, missing))"

section \<open>services/scorer.go: education matching\<close>

definition equivalents :: "(string \<times> string list) list" where
  "equivalents =
     [(''bachelor'', [''bs'', ''ba'', ''btech'', ''bsc'', ''bachelor's'']),
      (''master'', [''ms'', ''ma'', ''mtech'', ''msc'', ''master's'', ''mba'']),
      (''phd'', [''doctorate'', ''doctoral'', ''ph.d''])]"

fun alias_loop :: "string \<Rightarrow> string \<Rightarrow> string list \<Rightarrow> bool \<times> bool \<Rightarrow> bool \<times> bool" where
  "alias_loop candidate required [] (candidateHasDegree, requiredHasDegree) =
     (candidateHasDegree, requiredHasDegree)"
| "alias_loop candidate required (alias # aliases) (candidateHasDegree, requiredHasDegree) =
     alias_loop candidate required aliases
       (candidateHasDegree \<or> Contains candidate alias, requiredHasDegree \<or> Contains required alias)"

definition degree_class_matches :: "string \<Rightarrow> string \<Rightarrow> string \<times> string list \<Rightarrow> bool" where
  "degree_class_matches candidate required entry =
     (case entry of (degree, aliases) \<Rightarrow>
        (case alias_loop candidate required aliases
                (Contains candidate degree, Contains required degree) of
           (candidateHasDegree, requiredHasDegree) \<Rightarrow> candidateHasDegree \<and> requiredHasDegree))"

text \<open>
  The loop over \<open>equivalents\<close> returns true at the first class that both sides fall in
  and false when there is none: a result that does not depend on the order of the visit.
\<close>

definition educationMatches :: "string \<Rightarrow> string \<Rightarrow> bool" where
  "educationMatches candidateEd requiredEd =
     (let candidate = ToLower candidateEd;
          required = ToLower requiredEd
      in if Contains candidate required \<or> Contains required candidate then True
         else list_ex (degree_class_matches candidate required) equivalents)"

section \<open>models: resume, job description and analysis result\<close>

type_synonym Time = int

record PersonalInfo =
  pi_Name :: string
  pi_Email :: string
  pi_Phone :: string
  pi_Address :: string

record Education =
  ed_Degree :: string
  ed_Institution :: string
  ed_Year :: int
  ed_GPA :: string

text \<open>\<open>EndDate\<close> is a pointer in the source: \<open>None\<close> is the nil pointer.\<close>

record Experience =
  ex_Company :: string
  ex_Position :: string
  ex_StartDate :: Time
  ex_EndDate :: "Time option"
  ex_Description :: string
  ex_IsCurrent :: bool

record Project =
  pr_Name :: string
  pr_Description :: string
  pr_Technologies :: "string list"

record Resume =
  r_PersonalInfo :: PersonalInfo
  r_Education :: "Education list"
  r_Experience :: "Experience list"
  r_Skills :: "string list"
  r_Projects :: "Project list"
  r_Certifications :: "string list"
  r_RawText :: string
  r_FormatIssues :: "string list"

record JobDescription =
  jd_Title :: string
  jd_Company :: string
  jd_RequiredSkills :: "string list"
  jd_PreferredSkills :: "string list"
  jd_MinExperience :: int
  jd_Education :: "string list"
  jd_Location :: string
  jd_Description :: string
  jd_Keywords :: "string list"
  jd_RawText :: string

record SkillMatchResult =
  sm_Percentage :: real
  sm_MatchedSkills :: "string list"
  sm_MissingSkills :: "string list"
  sm_TotalRequired :: int
  sm_TotalMatched :: int

record ExperienceResult =
  xr_Score :: real
  xr_YearsRequired :: int
  xr_YearsCandidate :: real
  xr_MeetsRequirement :: bool

record EducationResult =
  er_Score :: real
  er_MatchedDegrees :: "string list"
  er_HasRequiredEducation :: bool

record FormatResult =
  fr_Score :: real
  fr_Issues :: "string list"
  fr_IsATSFriendly :: bool

record ScoreBreakdown =
  sb_SkillWeight :: real
  sb_ExperienceWeight :: real
  sb_EducationWeight :: real
  sb_FormatWeight :: real
  sb_SkillScore :: real
  sb_ExperienceScore :: real
  sb_EducationScore :: real
  sb_FormatScore :: real

record AnalysisResult =
  ar_Score :: real
  ar_SkillMatch :: SkillMatchResult
  ar_ExperienceMatch :: ExperienceResult
  ar_EducationMatch :: EducationResult
  ar_FormatScore :: FormatResult
  ar_MissingKeywords :: "string list"
  ar_Suggestions :: "string list"
  ar_MatchedKeywords :: "string list"
  ar_ScoreBreakdown :: ScoreBreakdown

text \<open>
  \<open>Time.Sub\<close> gives a \<open>Duration\<close>, a signed 64-bit count of nanoseconds, and saturates
  at its two ends; \<open>Duration.Hours\<close> is that count over the nanoseconds of an hour.
\<close>

definition maxDuration :: int where
  "maxDuration = 2 ^ 63 - 1"

definition minDuration :: int where
  "minDuration = - (2 ^ 63)"

definition Sub :: "Time \<Rightarrow> Time \<Rightarrow> int" where
  "Sub t u =
     (let d = t - u
      in if d > maxDuration then maxDuration else if d < minDuration then minDuration else d)"

definition Hours :: "int \<Rightarrow> real" where
  "Hours d = real_of_int d / 3600000000000"

text \<open>\<open>CalculateExperienceYears\<close> reads the clock once, before its loop: \<open>now\<close>.\<close>

definition CalculateExperienceYears :: "Time \<Rightarrow> Resume \<Rightarrow> real" where
  "CalculateExperienceYears now r =
     fold (\<lambda>exp totalYears.
             let endDate = (case ex_EndDate exp of None \<Rightarrow> now | Some e \<Rightarrow> e);
                 duration = Sub endDate (ex_StartDate exp);
                 years = Hours duration / (24 * 365.25)
             in totalYears + years)
          (r_Experience r) 0"

section \<open>utils: RemoveDuplicates\<close>

fun RemoveDuplicates_loop :: "string list \<Rightarrow> string list \<Rightarrow> string list \<Rightarrow> string list" where
  "RemoveDuplicates_loop [] keys result = result"
| "RemoveDuplicates_loop (item # slice) keys result =
     (let item' = TrimSpace item
      in if item' \<noteq> [] \<and> item' \<notin> set keys
         then RemoveDuplicates_loop slice (item' # keys) (result @ [item'])
         else RemoveDuplicates_loop slice keys result)"

definition RemoveDuplicates :: "string list \<Rightarrow> string list" where
  "RemoveDuplicates slice = RemoveDuplicates_loop slice [] []"

section \<open>services/scorer.go: analysis against a job description\<close>

record ScoringWeights =
  w_SkillWeight :: real
  w_ExperienceWeight :: real
  w_EducationWeight :: real
  w_FormatWeight :: real

definition DefaultWeights :: ScoringWeights where
  "DefaultWeights =
     \<lparr>w_SkillWeight = 0.4, w_ExperienceWeight = 0.3, w_EducationWeight = 0.2, w_FormatWeight = 0.1\<rparr>"

definition calculateSkillMatch :: "Resume \<Rightarrow> JobDescription \<Rightarrow> SkillMatchResult" where
  "calculateSkillMatch resume jobDesc =
     (let allJobSkills = RemoveDuplicates (jd_RequiredSkills jobDesc @ jd_PreferredSkills jobDesc)
      in case CalculateSkillMatch (r_Skills resume) allJobSkills of
           (percentage, matched, missing) \<Rightarrow>
             \<lparr>sm_Percentage = percentage,
              sm_MatchedSkills = matched,
              sm_MissingSkills = missing,
              sm_TotalRequired = int (length allJobSkills),
              sm_TotalMatched = int (length matched)\<rparr>)"

definition calculateExperienceMatch :: "Time \<Rightarrow> Resume \<Rightarrow> JobDescription \<Rightarrow> ExperienceResult" where
  "calculateExperienceMatch now resume jobDesc =
     (let candidateYears = CalculateExperienceYears now resume;
          requiredYears = real_of_int (jd_MinExperience jobDesc);
          meetsRequirement = (candidateYears \<ge> requiredYears);
          score = (if requiredYears = 0 then 1
                   else if candidateYears \<ge> requiredYears then 1
                   else (let score' = candidateYears / requiredYears
                         in if score' > 1 then 1 else score'))
      in \<lparr>xr_Score = score,
          xr_YearsRequired = jd_MinExperience jobDesc,
          xr_YearsCandidate = candidateYears,
          xr_MeetsRequirement = meetsRequirement\<rparr>)"

text \<open>The two nested loops carry \<open>matchedDegrees\<close> and \<open>hasMatch\<close>.\<close>

definition calculateEducationMatch :: "Resume \<Rightarrow> JobDescription \<Rightarrow> EducationResult" where
  "calculateEducationMatch resume jobDesc =
     (if length (jd_Education jobDesc) = 0
      then \<lparr>er_Score = 1, er_MatchedDegrees = [], er_HasRequiredEducation = True\<rparr>
      else
        case fold (\<lambda>resumeEd state.
                     fold (\<lambda>requiredEd (matchedDegrees, hasMatch).
                             if educationMatches (ed_Degree resumeEd) requiredEd
                             then (matchedDegrees @ [ed_Degree resumeEd], True)
                             else (matchedDegrees, hasMatch))
                          (jd_Education jobDesc) state)
                  (r_Education resume) ([], False) of
          (matchedDegrees, hasMatch) \<Rightarrow>
            \<lparr>er_Score = (if hasMatch then 1
                         else if length (r_Education resume) > 0 then 0.5 else 0),
             er_MatchedDegrees = matchedDegrees,
             er_HasRequiredEducation = hasMatch\<rparr>)"

definition analyzeAdditionalFormatIssues :: "Resume \<Rightarrow> string list" where
  "analyzeAdditionalFormatIssues resume =
     (let text = r_RawText resume;
          hasExperience = (length (r_Experience resume) > 0);
          hasEducation = (length (r_Education resume) > 0);
          hasSkills = (length (r_Skills resume) > 0)
      in (if pi_Email (r_PersonalInfo resume) = [] then [''Missing email address''] else [])
         @ (if pi_Phone (r_PersonalInfo resume) = [] then [''Missing phone number''] else [])
         @ (if \<not> hasExperience \<and> \<not> hasEducation
            then [''Missing key sections (experience or education)''] else [])
         @ (if \<not> hasSkills then [''No skills section identified''] else [])
         @ (if length (Split text CHR '' '') > 1000
            then [''Resume may be too long (consider condensing)''] else []))"

definition calculateFormatScore :: "Resume \<Rightarrow> FormatResult" where
  "calculateFormatScore resume =
     (let issues = r_FormatIssues resume @ analyzeAdditionalFormatIssues resume;
          score = (if length issues > 0
                   then (let score' = 1 - real (length issues) * 0.2
                         in if score' < 0.3 then 0.3 else score')
                   else 1);
          isATSFriendly = (length issues \<le> 1)
      in \<lparr>fr_Score = score, fr_Issues = issues, fr_IsATSFriendly = isATSFriendly\<rparr>)"

definition hasQuantifiedResults :: "Resume \<Rightarrow> bool" where
  "hasQuantifiedResults resume =
     (Contains (ToLower (r_RawText resume)) ''%''
      \<or> Contains (ToLower (r_RawText resume)) ''increased''
      \<or> Contains (ToLower (r_RawText resume)) ''reduced''
      \<or> Contains (ToLower (r_RawText resume)) ''improved'')"

definition format_suggestion :: "string \<Rightarrow> string list \<Rightarrow> string list" where
  "format_suggestion issue suggestions =
     (if Contains issue ''table''
      then suggestions @ [''Avoid using tables - use bullet points and clear headings instead.'']
      else if Contains issue ''column''
      then suggestions @ [''Use a single-column layout for better ATS readability.'']
      else if Contains issue ''email''
      then suggestions @ [''Add your email address to the contact section.'']
      else if Contains issue ''phone''
      then suggestions @ [''Include your phone number in the contact information.'']
      else if Contains issue ''skills''
      then suggestions @ [''Add a clear skills section with relevant technical and soft skills.'']
      else if Contains issue ''too long''
      then suggestions @ [''Consider condensing your resume to 1-2 pages for better readability.'']
      else suggestions)"

definition generateSuggestions ::
  "Resume \<Rightarrow> JobDescription \<Rightarrow> SkillMatchResult \<Rightarrow> ExperienceResult \<Rightarrow> EducationResult
     \<Rightarrow> FormatResult \<Rightarrow> string list" where
  "generateSuggestions resume jobDesc skillMatch experienceMatch educationMatch formatScore =
     (let missing = sm_MissingSkills skillMatch;
          s1 = (if sm_Percentage skillMatch < 50
                then [''Your skill match is low. Consider adding more relevant skills from the job description.'']
                     @ (if length missing > 0
                        then [''Key missing skills: ''
                                @ Join (if length missing > 5 then take 5 missing else missing) '', '']
                        else [])
                else if sm_Percentage skillMatch < 75
                then (let maxSkills = (if length missing < 3 then length missing else 3)
                      in [''Good skill match! Consider adding: '' @ Join (take maxSkills missing) '', ''])
                else []);
          s2 = (if \<not> xr_MeetsRequirement experienceMatch
                     \<and> xr_YearsCandidate experienceMatch < real_of_int (xr_YearsRequired experienceMatch)
                then s1 @ [''You may not meet the minimum experience requirement. Highlight relevant internships, projects, or transferable skills.'']
                else s1);
          s3 = (if \<not> er_HasRequiredEducation educationMatch \<and> length (jd_Education jobDesc) > 0
                then s2 @ [''Consider highlighting relevant coursework, certifications, or continuing education if you don't have the preferred degree.'']
                else s2);
          s4 = fold format_suggestion (fr_Issues formatScore) s3;
          overallScore = ((sm_Percentage skillMatch / 100) * 0.4 + xr_Score experienceMatch * 0.3
                          + er_Score educationMatch * 0.2 + fr_Score formatScore * 0.1) * 100;
          s5 = (if overallScore < 60
                then s4 @ [''Consider tailoring your resume more closely to this specific job description.'']
                else s4)
      in if \<not> hasQuantifiedResults resume
         then s5 @ [''Add quantified achievements (e.g., 'Increased sales by 20%', 'Managed team of 5 people').'']
         else s5)"

text \<open>\<open>AnalyzeResume\<close> reads the clock once, in \<open>calculateExperienceMatch\<close>.\<close>

definition AnalyzeResume :: "Time \<Rightarrow> Resume \<Rightarrow> JobDescription \<Rightarrow> AnalysisResult" where
  "AnalyzeResume now resume jobDesc =
     (let weights = DefaultWeights;
          skillMatch = calculateSkillMatch resume jobDesc;
          experienceMatch = calculateExperienceMatch now resume jobDesc;
          educationMatch = calculateEducationMatch resume jobDesc;
          formatScore = calculateFormatScore resume;
          overallScore = ((sm_Percentage skillMatch / 100) * w_SkillWeight weights
                          + xr_Score experienceMatch * w_ExperienceWeight weights
                          + er_Score educationMatch * w_EducationWeight weights
                          + fr_Score formatScore * w_FormatWeight weights) * 100;
          suggestions = generateSuggestions resume jobDesc skillMatch experienceMatch
                          educationMatch formatScore
      in \<lparr>ar_Score = overallScore,
          ar_SkillMatch = skillMatch,
          ar_ExperienceMatch = experienceMatch,
          ar_EducationMatch = educationMatch,
          ar_FormatScore = formatScore,
          ar_MissingKeywords = sm_MissingSkills skillMatch,
          ar_Suggestions = suggestions,
          ar_MatchedKeywords = sm_MatchedSkills skillMatch,
          ar_ScoreBreakdown =
            \<lparr>sb_SkillWeight = w_SkillWeight weights,
             sb_ExperienceWeight = w_ExperienceWeight weights,
             sb_EducationWeight = w_EducationWeight weights,
             sb_FormatWeight = w_FormatWeight weights,
             sb_SkillScore = sm_Percentage skillMatch,
             sb_ExperienceScore = xr_Score experienceMatch * 100,
             sb_EducationScore = er_Score educationMatch * 100,
             sb_FormatScore = fr_Score formatScore * 100\<rparr>\<rparr>)"

section \<open>services/scorer.go: analysis without a job description\<close>

definition calculateSkillScoreStandalone :: "Resume \<Rightarrow> real" where
  "calculateSkillScoreStandalone resume =
     (let skillCount = length (r_Skills resume)
      in if skillCount = 0 then 0
         else (let baseScore = 0.3;
                   skillBonus = real skillCount / 20;
                   skillBonus' = (if skillBonus > 0.7 then 0.7 else skillBonus)
               in baseScore + skillBonus'))"

definition calculateExperienceScoreStandalone :: "Time \<Rightarrow> Resume \<Rightarrow> real" where
  "calculateExperienceScoreStandalone now resume =
     (let years = CalculateExperienceYears now resume
      in if years = 0 then 0
         else if years < 1 then 0.2
         else if years < 3 then 0.5
         else if years < 5 then 0.7
         else if years < 10 then 0.9
         else 1)"

definition degree_score :: "string \<Rightarrow> real" where
  "degree_score degree =
     (if Contains degree ''phd'' \<or> Contains degree ''doctorate'' then 1
      else if Contains degree ''master'' \<or> Contains degree ''mba'' then 0.9
      else if Contains degree ''bachelor'' \<or> Contains degree ''b.s'' \<or> Contains degree ''b.a'' then 0.8
      else if Contains degree ''associate'' then 0.6
      else if Contains degree ''diploma'' \<or> Contains degree ''certificate'' then 0.5
      else 0.4)"

definition calculateEducationScoreStandalone :: "Resume \<Rightarrow> real" where
  "calculateEducationScoreStandalone resume =
     (if length (r_Education resume) = 0 then 0.3
      else fold (\<lambda>edu maxScore.
                   let score = degree_score (ToLower (ed_Degree edu))
                   in if score > maxScore then score else maxScore)
                (r_Education resume) 0)"

definition standalone_format_suggestion :: "string \<Rightarrow> string list \<Rightarrow> string list" where
  "standalone_format_suggestion issue suggestions =
     (if Contains issue ''table''
      then suggestions @ [''Avoid using tables - use bullet points and clear headings instead.'']
      else if Contains issue ''column''
      then suggestions @ [''Use a single-column layout for better ATS readability.'']
      else if Contains issue ''too long''
      then suggestions @ [''Consider condensing your resume to 1-2 pages for better readability.'']
      else suggestions)"

definition generateStandaloneSuggestions :: "Time \<Rightarrow> Resume \<Rightarrow> FormatResult \<Rightarrow> string list" where
  "generateStandaloneSuggestions now resume formatScore =
     (let s1 = (if length (r_Skills resume) < 5
                then [''Add more relevant technical and soft skills to your resume.''] else []);
          years = CalculateExperienceYears now resume;
          s2 = (if years < 1
                then s1 @ [''Include internships, projects, or volunteer work to demonstrate experience.'']
                else s1);
          s3 = (if length (r_Education resume) = 0
                then s2 @ [''Add your educational background including degrees, certifications, or relevant coursework.'']
                else s2);
          s4 = (if pi_Email (r_PersonalInfo resume) = []
                then s3 @ [''Include your email address in the contact section.''] else s3);
          s5 = (if pi_Phone (r_PersonalInfo resume) = []
                then s4 @ [''Add your phone number to make it easy for employers to contact you.'']
                else s4);
          s6 = fold standalone_format_suggestion (fr_Issues formatScore) s5;
          s7 = (if \<not> hasQuantifiedResults resume
                then s6 @ [''Add quantified achievements (e.g., 'Increased sales by 20%', 'Managed team of 5 people').'']
                else s6);
          s8 = (if length (r_Projects resume) = 0
                then s7 @ [''Include relevant projects to showcase your practical skills and experience.'']
                else s7)
      in if length (r_Certifications resume) = 0
         then s8 @ [''Add professional certifications or relevant training to strengthen your profile.'']
         else s8)"

definition extractDegreeNames :: "Education list \<Rightarrow> string list" where
  "extractDegreeNames education = filter (\<lambda>d. d \<noteq> []) (map ed_Degree education)"

text \<open>
  \<open>AnalyzeResumeStandalone\<close> reads the clock three times, each time through
  \<open>CalculateExperienceYears\<close>: for the experience score, for the suggestions and for the
  reported years of the candidate, in this order.
\<close>

definition AnalyzeResumeStandalone :: "Time \<Rightarrow> Time \<Rightarrow> Time \<Rightarrow> Resume \<Rightarrow> AnalysisResult" where
  "AnalyzeResumeStandalone now1 now2 now3 resume =
     (let weights = DefaultWeights;
          skillScore = calculateSkillScoreStandalone resume;
          experienceScore = calculateExperienceScoreStandalone now1 resume;
          educationScore = calculateEducationScoreStandalone resume;
          formatScore = calculateFormatScore resume;
          overallScore = (skillScore * w_SkillWeight weights
                          + experienceScore * w_ExperienceWeight weights
                          + educationScore * w_EducationWeight weights
                          + fr_Score formatScore * w_FormatWeight weights) * 100;
          suggestions = generateStandaloneSuggestions now2 resume formatScore
      in \<lparr>ar_Score = overallScore,
          ar_SkillMatch =
            \<lparr>sm_Percentage = skillScore * 100,
             sm_MatchedSkills = r_Skills resume,
             sm_MissingSkills = [],
             sm_TotalRequired = int (length (r_Skills resume)),
             sm_TotalMatched = int (length (r_Skills resume))\<rparr>,
          ar_ExperienceMatch =
            \<lparr>xr_Score = experienceScore,
             xr_YearsRequired = 0,
             xr_YearsCandidate = CalculateExperienceYears now3 resume,
             xr_MeetsRequirement = True\<rparr>,
          ar_EducationMatch =
            \<lparr>er_Score = educationScore,
             er_MatchedDegrees = extractDegreeNames (r_Education resume),
             er_HasRequiredEducation = (length (r_Education resume) > 0)\<rparr>,
          ar_FormatScore = formatScore,
          ar_MissingKeywords = [],
          ar_Suggestions = suggestions,
          ar_MatchedKeywords = r_Skills resume,
          ar_ScoreBreakdown =
            \<lparr>sb_SkillWeight = w_SkillWeight weights,
             sb_ExperienceWeight = w_ExperienceWeight weights,
             sb_EducationWeight = w_EducationWeight weights,
             sb_FormatWeight = w_FormatWeight weights,
             sb_SkillScore = skillScore * 100,
             sb_ExperienceScore = experienceScore * 100,
             sb_EducationScore = educationScore * 100,
             sb_FormatScore = fr_Score formatScore * 100\<rparr>\<rparr>)"

section \<open>services/nlp.go: tokens, TF-IDF and keywords\<close>

definition stopWords :: "string list" where
  "stopWords =
     [''a'', ''an'', ''and'', ''are'', ''as'', ''at'',
      ''be'', ''by'', ''for'', ''from'', ''has'', ''he'',
      ''in'', ''is'', ''it'', ''its'', ''of'', ''on'',
      ''that'', ''the'', ''to'', ''was'', ''were'', ''will'',
      ''with'', ''you'', ''your'', ''have'', ''had'', ''this'',
      ''they'', ''we'', ''our'', ''us'', ''can'', ''could'',
      ''would'', ''should'', ''may'', ''might'', ''must'']"

definition Tokenize :: "string \<Rightarrow> string list" where
  "Tokenize text =
     (let words = FieldsFunc (ToLower text) (\<lambda>c. \<not> isLetter c \<and> \<not> isNumber c)
      in fold (\<lambda>word tokens.
                 let word' = TrimSpace word
                 in if length word' > 2 \<and> word' \<notin> set stopWords then tokens @ [word'] else tokens)
              words [])"

text \<open>
  A \<open>map[string]int\<close> of counters: \<open>incr\<close> is \<open>m[token]++\<close>, \<open>count_of\<close> is the read
  \<open>m[term]\<close>, which is 0 for a term that is not a key.
\<close>

fun incr :: "string \<Rightarrow> (string \<times> int) list \<Rightarrow> (string \<times> int) list" where
  "incr token [] = [(token, 1)]"
| "incr token ((k, n) # m) = (if k = token then (k, n + 1) # m else (k, n) # incr token m)"

definition count_of :: "(string \<times> int) list \<Rightarrow> string \<Rightarrow> int" where
  "count_of m term = (case map_of m term of None \<Rightarrow> 0 | Some n \<Rightarrow> n)"

record Document =
  doc_Text :: string
  doc_Terms :: "(string \<times> int) list"






text \<open>
  \<open>ExtractKeywords\<close>. The slice \<open>scores\<close> is filled by a \<open>range\<close> over the map
  \<open>termFreq\<close>, in an order the language leaves open: \<open>visit\<close> is the order in which the
  keys are visited. \<open>sort.Slice\<close> orders by the comparison \<open>less\<close> and promises nothing
  about elements that compare equal; since the visiting order is already arbitrary, the
  model sorts by insertion, which keeps equal elements in the order of \<open>scores\<close>.
\<close>

fun sort_insert :: "('a \<Rightarrow> 'a \<Rightarrow> bool) \<Rightarrow> 'a \<Rightarrow> 'a list \<Rightarrow> 'a list" where
  "sort_insert lt x [] = [x]"
| "sort_insert lt x (y # ys) = (if lt y x then y # sort_insert lt x ys else x # y # ys)"

definition sort_Slice :: "'a list \<Rightarrow> ('a \<Rightarrow> 'a \<Rightarrow> bool) \<Rightarrow> 'a list" where
  "sort_Slice xs lt = foldr (sort_insert lt) xs []"

definition ExtractKeywords :: "string list \<Rightarrow> string \<Rightarrow> int \<Rightarrow> string list" where
  "ExtractKeywords visit text topK =
     (let tokens = Tokenize text;
          termFreq = fold incr tokens [];
          scores = map (\<lambda>term. (term, count_of termFreq term)) visit;
          scores' = sort_Slice scores (\<lambda>a b. snd a > snd b)
      in map fst (take (nat topK) scores'))"

text \<open>A visiting order of the map \<open>termFreq\<close> of a text: every key, once.\<close>

definition visits_keys_of :: "string list \<Rightarrow> string \<Rightarrow> bool" where
  "visits_keys_of visit text =
     (distinct visit \<and> set visit = set (map fst (fold incr (Tokenize text) [])))"

text \<open>
  The keyword list as the specification words it, for comparison: the distinct tokens in
  the order of their first occurrence, sorted stably by falling frequency, cut to \<open>topK\<close>.
\<close>

fun first_occurrences :: "string list \<Rightarrow> string list \<Rightarrow> string list" where
  "first_occurrences [] seen = []"
| "first_occurrences (t # ts) seen =
     (if t \<in> set seen then first_occurrences ts seen else t # first_occurrences ts (t # seen))"

definition ExtractKeywords_spec :: "string \<Rightarrow> int \<Rightarrow> string list" where
  "ExtractKeywords_spec text topK =
     (let tokens = Tokenize text
      in take (nat topK)
           (sort_key (\<lambda>term. - int (count_list tokens term)) (first_occurrences tokens [])))"

section \<open>services/parser.go: skills and projects\<close>

definition skillKeywords :: "string list" where
  "skillKeywords =
     [''python'', ''java'', ''javascript'', ''typescript'', ''go'', ''golang'', ''rust'', ''c++'', ''c#'',
      ''react'', ''angular'', ''vue'', ''nodejs'', ''express'', ''django'', ''flask'', ''spring'',
      ''sql'', ''mysql'', ''postgresql'', ''mongodb'', ''redis'', ''elasticsearch'',
      ''aws'', ''azure'', ''gcp'', ''docker'', ''kubernetes'', ''terraform'', ''ansible'',
      ''git'', ''github'', ''gitlab'', ''jenkins'', ''ci/cd'', ''devops'',
      ''machine learning'', ''deep learning'', ''tensorflow'', ''pytorch'', ''scikit-learn'',
      ''html'', ''css'', ''bootstrap'', ''tailwind'', ''sass'', ''less'']"

definition extractSkills :: "Resume \<Rightarrow> string \<Rightarrow> Resume" where
  "extractSkills resume text =
     (let textLower = ToLower text;
          foundSkills = fold (\<lambda>skill foundSkills.
                                if Contains textLower (ToLower skill)
                                then foundSkills @ [skill] else foundSkills)
                             skillKeywords []
      in resume\<lparr>r_Skills := RemoveDuplicates foundSkills\<rparr>)"

text \<open>
  The pattern \<open>(?i)(project|projects?)[\s:]*\<close> matches a line exactly when the line
  contains \<open>project\<close> in some mix of cases: the rest of the pattern matches the empty
  string.
\<close>

definition projectRegex_MatchString :: "string \<Rightarrow> bool" where
  "projectRegex_MatchString line = Contains (ToLower line) ''project''"

function collect_loop :: "string list \<Rightarrow> nat \<Rightarrow> nat \<Rightarrow> Project list \<Rightarrow> Project list" where
  "collect_loop lines i j projects =
     (if j < length lines \<and> j < i + 10
      then (let projectLine = TrimSpace (lines ! j)
            in collect_loop lines i (j + 1)
                 (if length projectLine > 10
                  then projects @ [\<lparr>pr_Name = projectLine, pr_Description = projectLine,
                                    pr_Technologies = []\<rparr>]
                  else projects))
      else projects)"
  by pat_completeness auto
termination
  by (relation "measure (\<lambda>(lines, i, j, projects). i + 10 - j)") auto

function scan_loop :: "string list \<Rightarrow> nat \<Rightarrow> Project list \<Rightarrow> Project list" where
  "scan_loop lines i projects =
     (if i < length lines
      then (if projectRegex_MatchString (lines ! i)
            then collect_loop lines i (i + 1) projects
            else scan_loop lines (i + 1) projects)
      else projects)"
  by pat_completeness auto
termination
  by (relation "measure (\<lambda>(lines, i, projects). length lines - i)") auto

declare collect_loop.simps [simp del] scan_loop.simps [simp del]

definition extractProjects :: "Resume \<Rightarrow> string \<Rightarrow> Resume" where
  "extractProjects resume text =
     (let lines = Split text CHR 0x0A
      in resume\<lparr>r_Projects := scan_loop lines 0 (r_Projects resume)\<rparr>)"


section \<open>Package regexp\<close>

text \<open>
  A compiled pattern is a \<open>regex\<close>. \<open>ends r s\<close> lists what is left of \<open>s\<close> after each way
  of matching \<open>r\<close> at its start, in the order in which a backtracking search tries them
  (an alternative before the next one, one more repetition before stopping): package
  \<open>regexp\<close> returns the leftmost match and, there, the one such a search finds first.
\<close>

datatype regex =
    Epsilon
  | Class "char \<Rightarrow> bool"
  | Cat regex regex
  | Alt regex regex
  | Star regex

fun star_ends :: "(string \<Rightarrow> string list) \<Rightarrow> nat \<Rightarrow> string \<Rightarrow> string list" where
  "star_ends f 0 s = [s]"
| "star_ends f (Suc n) s =
     concat (map (star_ends f n) (filter (\<lambda>s'. length s' < length s) (f s))) @ [s]"

primrec ends :: "regex \<Rightarrow> string \<Rightarrow> string list" where
  "ends Epsilon s = [s]"
| "ends (Class P) s = (case s of [] \<Rightarrow> [] | c # cs \<Rightarrow> if P c then [cs] else [])"
| "ends (Cat a b) s = concat (map (ends b) (ends a s))"
| "ends (Alt a b) s = ends a s @ ends b s"
| "ends (Star a) s = star_ends (ends a) (length s) s"

definition Lit :: "char \<Rightarrow> regex" where
  "Lit c = Class (\<lambda>x. x = c)"

text \<open>A letter under the flag \<open>(?i)\<close>.\<close>

definition LitCI :: "char \<Rightarrow> regex" where
  "LitCI c = Class (\<lambda>x. toLowerChar x = toLowerChar c)"

fun Seq :: "regex list \<Rightarrow> regex" where
  "Seq [] = Epsilon"
| "Seq [r] = r"
| "Seq (r # rs) = Cat r (Seq rs)"

fun Alts :: "regex list \<Rightarrow> regex" where
  "Alts [] = Class (\<lambda>x. False)"
| "Alts [r] = r"
| "Alts (r # rs) = Alt r (Alts rs)"

definition Str :: "string \<Rightarrow> regex" where
  "Str s = Seq (map Lit s)"

definition StrCI :: "string \<Rightarrow> regex" where
  "StrCI s = Seq (map LitCI s)"

definition Optional :: "regex \<Rightarrow> regex" where
  "Optional r = Alt r Epsilon"

definition OneOrMore :: "regex \<Rightarrow> regex" where
  "OneOrMore r = Cat r (Star r)"

fun Rep :: "nat \<Rightarrow> regex \<Rightarrow> regex" where
  "Rep 0 r = Epsilon"
| "Rep (Suc n) r = Cat r (Rep n r)"

definition AtLeast :: "nat \<Rightarrow> regex \<Rightarrow> regex" where
  "AtLeast n r = Cat (Rep n r) (Star r)"

text \<open>The classes \<open>\s\<close> and \<open>\d\<close> of package \<open>regexp\<close>.\<close>

definition reSpace :: "char \<Rightarrow> bool" where
  "reSpace c = (c = CHR 0x09 \<or> c = CHR 0x0A \<or> c = CHR 0x0C \<or> c = CHR 0x0D \<or> c = CHR 0x20)"

definition consumed :: "string \<Rightarrow> string \<Rightarrow> string" where
  "consumed s rest = take (length s - length rest) s"

text \<open>The leftmost match: the matched text and what follows it.\<close>

fun find_first :: "regex \<Rightarrow> string \<Rightarrow> (string \<times> string) option" where
  "find_first r [] = (case ends r [] of [] \<Rightarrow> None | rest # others \<Rightarrow> Some ([], rest))"
| "find_first r (c # cs) =
     (case ends r (c # cs) of
        [] \<Rightarrow> find_first r cs
      | rest # others \<Rightarrow> Some (consumed (c # cs) rest, rest))"

definition FindString :: "regex \<Rightarrow> string \<Rightarrow> string" where
  "FindString r s = (case find_first r s of None \<Rightarrow> [] | Some (m, rest) \<Rightarrow> m)"

definition MatchString :: "regex \<Rightarrow> string \<Rightarrow> bool" where
  "MatchString r s = (case find_first r s of None \<Rightarrow> False | Some (m, rest) \<Rightarrow> True)"

text \<open>\<open>FindAllString(s, -1)\<close>: the successive matches, each sought after the one before
  (the patterns of the parser match no empty text).\<close>

function FindAllString :: "regex \<Rightarrow> string \<Rightarrow> string list" where
  "FindAllString r s =
     (case find_first r s of
        None \<Rightarrow> []
      | Some (m, rest) \<Rightarrow> if length rest < length s then m # FindAllString r rest else [m])"
  by pat_completeness auto
termination
  by (relation "measure (\<lambda>(r, s). length s)") auto

declare FindAllString.simps [simp del]

text \<open>A pattern anchored by \<open>^\<close> and \<open>$\<close>: some way of matching uses up the text.\<close>

definition full_match :: "regex \<Rightarrow> string \<Rightarrow> bool" where
  "full_match r s = ([] \<in> set (ends r s))"

text \<open>
  The leftmost match of a pattern that is a sequence of pieces: the text of the match
  followed by the text of each piece, or the empty list when there is no match.
\<close>

fun piece_ends :: "regex list \<Rightarrow> string \<Rightarrow> (string list \<times> string) list" where
  "piece_ends [] s = [([], s)]"
| "piece_ends (r # rs) s =
     concat (map (\<lambda>s'. map (\<lambda>(texts, rest). (consumed s s' # texts, rest)) (piece_ends rs s'))
                 (ends r s))"

fun find_pieces :: "regex list \<Rightarrow> string \<Rightarrow> string list" where
  "find_pieces rs [] =
     (case piece_ends rs [] of [] \<Rightarrow> [] | (texts, rest) # others \<Rightarrow> [] # texts)"
| "find_pieces rs (c # cs) =
     (case piece_ends rs (c # cs) of
        [] \<Rightarrow> find_pieces rs cs
      | (texts, rest) # others \<Rightarrow> consumed (c # cs) rest # texts)"

text \<open>The groups of such a pattern are some of its pieces, given by their positions.\<close>

definition FindStringSubmatch :: "regex list \<times> nat list \<Rightarrow> string \<Rightarrow> string list" where
  "FindStringSubmatch pattern s =
     (case pattern of (pieces, groups) \<Rightarrow>
        (case find_pieces pieces s of
           [] \<Rightarrow> []
         | whole # texts \<Rightarrow> whole # map (\<lambda>k. texts ! k) groups))"


section \<open>Packages strconv and filepath\<close>

text \<open>\<open>strconv.Atoi\<close>: an optional sign and decimal digits, within the 64-bit range of \<open>int\<close>.\<close>

definition Atoi :: "string \<Rightarrow> int option" where
  "Atoi s =
     (let digits = (case s of [] \<Rightarrow> []
                    | c # cs \<Rightarrow> if c = CHR ''+'' \<or> c = CHR ''-'' then cs else s);
          negative = (case s of [] \<Rightarrow> False | c # cs \<Rightarrow> c = CHR ''-'');
          magnitude = fold (\<lambda>c n. n * 10 + (int (of_char c) - 48)) digits 0;
          n = (if negative then - magnitude else magnitude)
      in if digits = [] \<or> \<not> list_all isNumber digits then None
         else if n < - (2 ^ 63) \<or> n > 2 ^ 63 - 1 then None
         else Some n)"

text \<open>\<open>filepath.Ext\<close>: the suffix from the last dot of the last element of the path.\<close>

fun Ext_loop :: "string \<Rightarrow> string \<Rightarrow> string" where
  "Ext_loop [] suffix = []"
| "Ext_loop (c # front) suffix =
     (if c = CHR ''/'' then []
      else if c = CHR ''.'' then c # suffix
      else Ext_loop front (c # suffix))"

definition Ext :: "string \<Rightarrow> string" where
  "Ext path = Ext_loop (rev path) []"

definition Fields :: "string \<Rightarrow> string list" where
  "Fields s = FieldsFunc s isSpace"

section \<open>services/parser.go: the patterns\<close>

definition reDigit :: regex where
  "reDigit = Class isNumber"

definition emailRegex :: regex where
  "emailRegex =
     Seq [OneOrMore (Class (\<lambda>c. isLetter c \<or> isNumber c \<or> c \<in> set ''._%+-'')),
          Lit CHR ''@'',
          OneOrMore (Class (\<lambda>c. isLetter c \<or> isNumber c \<or> c \<in> set ''.-'')),
          Lit CHR ''.'',
          AtLeast 2 (Class isLetter)]"

definition phoneSeparator :: regex where
  "phoneSeparator = Class (\<lambda>c. c = CHR ''-'' \<or> c = CHR ''.'' \<or> reSpace c)"

definition phoneRegex :: regex where
  "phoneRegex =
     Seq [Optional (Seq [Optional (Lit CHR ''+''), Optional (Lit CHR ''1''), Optional phoneSeparator]),
          Optional (Lit CHR ''(''),
          Rep 3 reDigit,
          Optional (Lit CHR '')''),
          Optional phoneSeparator,
          Rep 3 reDigit,
          Optional phoneSeparator,
          Rep 4 reDigit]"

text \<open>The body of \<open>^[A-Za-z\s.]{2,}$\<close>, used with \<^const>\<open>full_match\<close>.\<close>

definition nameRegex :: regex where
  "nameRegex = AtLeast 2 (Class (\<lambda>c. isLetter c \<or> reSpace c \<or> c = CHR ''.''))"

definition dotted :: "char \<Rightarrow> string \<Rightarrow> regex" where
  "dotted c rest = Seq [LitCI c, Optional (Lit CHR ''.''), StrCI rest]"

definition degreeRegex :: regex where
  "degreeRegex =
     Alts [StrCI ''bachelor'', StrCI ''master'', StrCI ''phd'',
           Cat (dotted CHR ''b'' ''s'') (Optional (Lit CHR ''.'')),
           Cat (dotted CHR ''m'' ''s'') (Optional (Lit CHR ''.'')),
           Cat (dotted CHR ''b'' ''a'') (Optional (Lit CHR ''.'')),
           Cat (dotted CHR ''m'' ''a'') (Optional (Lit CHR ''.'')),
           dotted CHR ''b'' ''tech'', dotted CHR ''m'' ''tech'',
           StrCI ''mba'', StrCI ''diploma'']"

definition century :: regex where
  "century = Alt (Str ''19'') (Str ''20'')"

definition yearRegex :: regex where
  "yearRegex = Cat century (Rep 2 reDigit)"

definition dateRegex :: regex where
  "dateRegex =
     Seq [Alts (map StrCI [''jan'', ''feb'', ''mar'', ''apr'', ''may'', ''jun'',
                           ''jul'', ''aug'', ''sep'', ''oct'', ''nov'', ''dec'']),
          Star (Class isLetter),
          OneOrMore (Class reSpace),
          century,
          Rep 2 reDigit]"

definition certRegex :: regex where
  "certRegex = Alts [StrCI ''certification'', StrCI ''certified'', StrCI ''certificate'']"

definition spacesRegex :: regex where
  "spacesRegex = AtLeast 5 (Class reSpace)"

text \<open>The ten box-drawing characters of \<open>analyzeFormat\<close>, in UTF-8.\<close>

definition boxCharacters :: "string list" where
  "boxCharacters =
     map (\<lambda>c. [CHR 0xE2, CHR 0x94, c])
         [CHR 0x82, CHR 0x8C, CHR 0x90, CHR 0x94, CHR 0x98,
          CHR 0x9C, CHR 0xA4, CHR 0xAC, CHR 0xB4, CHR 0xBC]"

definition companyRegex :: regex where
  "companyRegex =
     Alts [StrCI ''company'', StrCI ''organization'', StrCI ''corp'', StrCI ''inc'', StrCI ''ltd'']"

text \<open>\<open>(\d+)\s*\+?\s*year\<close> in two pieces: the group, and the rest.\<close>

definition expRegex :: "regex list \<times> nat list" where
  "expRegex =
     ([OneOrMore reDigit,
       Seq [Star (Class reSpace), Optional (Lit CHR ''+''), Star (Class reSpace), Str ''year'']],
      [0])"

text \<open>\<open>(?i)(location|based in|located in)[\s:]*([a-zA-Z\s,]+)\<close> in three pieces: the
  first group, the separators, the second group.\<close>

definition locationRegex :: "regex list \<times> nat list" where
  "locationRegex =
     ([Alts [StrCI ''location'', StrCI ''based in'', StrCI ''located in''],
       Star (Class (\<lambda>c. reSpace c \<or> c = CHR '':'')),
       OneOrMore (Class (\<lambda>c. isLetter c \<or> reSpace c \<or> c = CHR '',''))],
      [0, 2])"

section \<open>services/parser.go: reading the document\<close>

text \<open>
  The libraries that open a document are arguments: \<open>pdf_Open\<close> gives an error or the
  pages of the file, each null or not and with the outcome of \<open>GetPlainText\<close>;
  \<open>document_Open\<close> gives an error or the paragraphs of the file, each the texts of its runs.
\<close>

record PdfPage =
  pg_IsNull :: bool
  pg_PlainText :: "string + string"

definition parsePDF :: "(string \<Rightarrow> string + PdfPage list) \<Rightarrow> string \<Rightarrow> string + string" where
  "parsePDF pdf_Open filename =
     (case pdf_Open filename of
        Inl err \<Rightarrow> Inl err
      | Inr pages \<Rightarrow>
          Inr (fold (\<lambda>page text.
                       if pg_IsNull page then text
                       else (case pg_PlainText page of
                               Inl err \<Rightarrow> text
                             | Inr pageText \<Rightarrow> text @ pageText @ [CHR 0x0A]))
                    pages []))"

definition parseDOCX :: "(string \<Rightarrow> string + string list list) \<Rightarrow> string \<Rightarrow> string + string" where
  "parseDOCX document_Open filename =
     (case document_Open filename of
        Inl err \<Rightarrow> Inl err
      | Inr paragraphs \<Rightarrow>
          Inr (fold (\<lambda>para text. fold (\<lambda>run text'. text' @ run) para text @ [CHR 0x0A])
                    paragraphs []))"

section \<open>services/parser.go: the fields of a resume\<close>

fun name_loop :: "string list \<Rightarrow> nat \<Rightarrow> string \<Rightarrow> string" where
  "name_loop [] i name = name"
| "name_loop (line # lines) i name =
     (if i > 5 then name
      else (let cleanLine = TrimSpace line
            in if length cleanLine > 2 \<and> length cleanLine < 50
                  \<and> \<not> Contains cleanLine ''@''
                  \<and> \<not> MatchString phoneRegex cleanLine
               then (if full_match nameRegex cleanLine then cleanLine
                     else name_loop lines (i + 1) name)
               else name_loop lines (i + 1) name))"

definition extractPersonalInfo :: "Resume \<Rightarrow> string \<Rightarrow> Resume" where
  "extractPersonalInfo resume text =
     (let lines = Split text CHR 0x0A;
          info = r_PersonalInfo resume;
          email = FindString emailRegex text;
          info1 = (if email \<noteq> [] then info\<lparr>pi_Email := email\<rparr> else info);
          phone = FindString phoneRegex text;
          info2 = (if phone \<noteq> [] then info1\<lparr>pi_Phone := phone\<rparr> else info1)
      in resume\<lparr>r_PersonalInfo := info2\<lparr>pi_Name := name_loop lines 0 (pi_Name info2)\<rparr>\<rparr>)"

function institution_loop :: "string list \<Rightarrow> nat \<Rightarrow> nat \<Rightarrow> string" where
  "institution_loop lines i j =
     (if j < length lines \<and> j < i + 3
      then (let currentLine = TrimSpace (lines ! j)
            in if length currentLine > 5 \<and> \<not> MatchString degreeRegex currentLine
               then currentLine
               else institution_loop lines i (j + 1))
      else [])"
  by pat_completeness auto
termination
  by (relation "measure (\<lambda>(lines, i, j). i + 3 - j)") auto

declare institution_loop.simps [simp del]

definition extractEducation :: "Resume \<Rightarrow> string \<Rightarrow> Resume" where
  "extractEducation resume text =
     (let lines = Split text CHR 0x0A
      in resume\<lparr>r_Education :=
           fold (\<lambda>i educations.
                   let line = lines ! i
                   in if MatchString degreeRegex line
                      then (let found = FindString degreeRegex line;
                                degree = (if found \<noteq> [] then TrimSpace found else []);
                                institution = institution_loop lines i i;
                                digits = FindString yearRegex line;
                                year = (if digits \<noteq> []
                                        then (case Atoi digits of Some y \<Rightarrow> y | None \<Rightarrow> 0)
                                        else 0)
                            in if degree \<noteq> []
                               then educations @ [\<lparr>ed_Degree = degree, ed_Institution = institution,
                                                   ed_Year = year, ed_GPA = []\<rparr>]
                               else educations)
                      else educations)
                [0..<length lines] (r_Education resume)\<rparr>)"

text \<open>
  \<open>parseDate\<close> tries the five layouts in turn. \<open>time.Parse\<close> is an argument: it gives the
  instant that a text denotes under a layout, or nothing. \<open>zeroTime\<close> is the zero value of
  \<open>time.Time\<close>, 1 January of the year 1.
\<close>

definition formats :: "string list" where
  "formats = [''Jan 2006'', ''January 2006'', ''2006'', ''Jan 02, 2006'', ''January 02, 2006'']"

fun parseDate_loop :: "(string \<Rightarrow> string \<Rightarrow> Time option) \<Rightarrow> string list \<Rightarrow> string \<Rightarrow> Time option" where
  "parseDate_loop time_Parse [] dateStr = None"
| "parseDate_loop time_Parse (format # rest) dateStr =
     (case time_Parse format dateStr of
        Some t \<Rightarrow> Some t
      | None \<Rightarrow> parseDate_loop time_Parse rest dateStr)"

definition parseDate :: "(string \<Rightarrow> string \<Rightarrow> Time option) \<Rightarrow> string \<Rightarrow> Time option" where
  "parseDate time_Parse dateStr = parseDate_loop time_Parse formats dateStr"

definition zeroTime :: Time where
  "zeroTime = - 62135596800000000000"

definition surrounding_lines :: "string list \<Rightarrow> nat \<Rightarrow> string \<times> string" where
  "surrounding_lines lines i =
     (let startIdx = (if i < 2 then 0 else i - 2);
          endIdx = (if i + 3 > length lines then length lines else i + 3)
      in fold (\<lambda>j (company, position).
                 let currentLine = TrimSpace (lines ! j)
                 in if length currentLine > 2 \<and> \<not> MatchString dateRegex currentLine
                    then (if company = [] then (currentLine, position)
                          else if position = [] then (company, currentLine)
                          else (company, position))
                    else (company, position))
              [startIdx..<endIdx] ([], []))"

definition extractExperience :: "(string \<Rightarrow> string \<Rightarrow> Time option) \<Rightarrow> Resume \<Rightarrow> string \<Rightarrow> Resume" where
  "extractExperience time_Parse resume text =
     (let lines = Split text CHR 0x0A
      in resume\<lparr>r_Experience :=
           fold (\<lambda>i experiences.
                   let line = lines ! i
                   in if MatchString dateRegex line
                      then (let dates = FindAllString dateRegex line;
                                startDate = (if length dates > 0
                                             then (case parseDate time_Parse (dates ! 0) of
                                                     Some t \<Rightarrow> t | None \<Rightarrow> zeroTime)
                                             else zeroTime);
                                endDate = (if length dates > 1
                                           then parseDate time_Parse (dates ! 1)
                                           else None)
                            in case surrounding_lines lines i of
                                 (company, position) \<Rightarrow>
                                   if company \<noteq> []
                                   then experiences @ [\<lparr>ex_Company = company, ex_Position = position,
                                                         ex_StartDate = startDate, ex_EndDate = endDate,
                                                         ex_Description = [], ex_IsCurrent = False\<rparr>]
                                   else experiences)
                      else experiences)
                [0..<length lines] (r_Experience resume)\<rparr>)"

definition extractCertifications :: "Resume \<Rightarrow> string \<Rightarrow> Resume" where
  "extractCertifications resume text =
     (let lines = Split text CHR 0x0A
      in resume\<lparr>r_Certifications :=
           fold (\<lambda>line certifications.
                   if MatchString certRegex line
                   then (let cleanLine = TrimSpace line
                         in if length cleanLine > 5 then certifications @ [cleanLine]
                            else certifications)
                   else certifications)
                lines (r_Certifications resume)\<rparr>)"

fun columns_loop :: "string list \<Rightarrow> string list \<Rightarrow> string list" where
  "columns_loop [] issues = issues"
| "columns_loop (line # lines) issues =
     (if length (Fields line) > 10 then issues @ [''Possible multi-column layout detected'']
      else columns_loop lines issues)"

definition analyzeFormat :: "Resume \<Rightarrow> string \<Rightarrow> Resume" where
  "analyzeFormat resume text =
     (let issues1 = (if Contains text [CHR 0x09] \<or> MatchString spacesRegex text
                     then [''Document may contain tables or complex formatting''] else []);
          issues2 = (if list_ex (Contains text) boxCharacters
                     then issues1 @ [''Document contains table borders or special formatting'']
                     else issues1);
          lines = Split text CHR 0x0A
      in resume\<lparr>r_FormatIssues := columns_loop lines issues2\<rparr>)"

datatype ParseError = UnsupportedFormat string | ExtractFailed string

definition new_resume :: "string \<Rightarrow> Resume" where
  "new_resume text =
     \<lparr>r_PersonalInfo = \<lparr>pi_Name = [], pi_Email = [], pi_Phone = [], pi_Address = []\<rparr>,
      r_Education = [], r_Experience = [], r_Skills = [], r_Projects = [],
      r_Certifications = [], r_RawText = text, r_FormatIssues = []\<rparr>"

text \<open>The seven extraction steps of \<open>ParseResume\<close>, in their order.\<close>

definition extract_all :: "(string \<Rightarrow> string \<Rightarrow> Time option) \<Rightarrow> string \<Rightarrow> Resume" where
  "extract_all time_Parse text =
     (let resume0 = new_resume text;
          resume1 = extractPersonalInfo resume0 text;
          resume2 = extractEducation resume1 text;
          resume3 = extractExperience time_Parse resume2 text;
          resume4 = extractSkills resume3 text;
          resume5 = extractProjects resume4 text;
          resume6 = extractCertifications resume5 text
      in analyzeFormat resume6 text)"

definition ParseResume ::
  "(string \<Rightarrow> string \<Rightarrow> Time option) \<Rightarrow> (string \<Rightarrow> string + PdfPage list)
     \<Rightarrow> (string \<Rightarrow> string + string list list) \<Rightarrow> string \<Rightarrow> ParseError + Resume" where
  "ParseResume time_Parse pdf_Open document_Open filename =
     (let ext = ToLower (Ext filename)
      in if ext = ''.pdf''
         then (case parsePDF pdf_Open filename of
                 Inl err \<Rightarrow> Inl (ExtractFailed err)
               | Inr text \<Rightarrow> Inr (extract_all time_Parse text))
         else if ext = ''.docx''
         then (case parseDOCX document_Open filename of
                 Inl err \<Rightarrow> Inl (ExtractFailed err)
               | Inr text \<Rightarrow> Inr (extract_all time_Parse text))
         else Inl (UnsupportedFormat ext))"

section \<open>services/parser.go: job descriptions\<close>

fun title_loop :: "string list \<Rightarrow> string \<Rightarrow> string" where
  "title_loop [] title = title"
| "title_loop (line # lines) title =
     (let cleanLine = TrimSpace line
      in if length cleanLine > 5 \<and> length cleanLine < 100 then cleanLine
         else title_loop lines title)"

definition extractJDTitle :: "JobDescription \<Rightarrow> string \<Rightarrow> JobDescription" where
  "extractJDTitle jd text = jd\<lparr>jd_Title := title_loop (Split text CHR 0x0A) (jd_Title jd)\<rparr>"

fun company_loop :: "string list \<Rightarrow> string \<Rightarrow> string" where
  "company_loop [] company = company"
| "company_loop (line # lines) company =
     (if MatchString companyRegex line then TrimSpace line else company_loop lines company)"

definition extractJDCompany :: "JobDescription \<Rightarrow> string \<Rightarrow> JobDescription" where
  "extractJDCompany jd text = jd\<lparr>jd_Company := company_loop (Split text CHR 0x0A) (jd_Company jd)\<rparr>"

definition extractJDSkills :: "JobDescription \<Rightarrow> string \<Rightarrow> JobDescription" where
  "extractJDSkills jd text =
     (let textLower = ToLower text;
          requiredSkills = fold (\<lambda>skill requiredSkills.
                                   if Contains textLower (ToLower skill)
                                   then requiredSkills @ [skill] else requiredSkills)
                                skillKeywords []
      in jd\<lparr>jd_RequiredSkills := RemoveDuplicates requiredSkills\<rparr>)"

definition extractJDExperience :: "JobDescription \<Rightarrow> string \<Rightarrow> JobDescription" where
  "extractJDExperience jd text =
     (let found = FindStringSubmatch expRegex (ToLower text)
      in if length found > 1
         then (case Atoi (found ! 1) of
                 Some years \<Rightarrow> jd\<lparr>jd_MinExperience := years\<rparr>
               | None \<Rightarrow> jd)
         else jd)"

definition extractJDEducation :: "JobDescription \<Rightarrow> string \<Rightarrow> JobDescription" where
  "extractJDEducation jd text =
     jd\<lparr>jd_Education := RemoveDuplicates (FindAllString degreeRegex text)\<rparr>"

definition extractJDLocation :: "JobDescription \<Rightarrow> string \<Rightarrow> JobDescription" where
  "extractJDLocation jd text =
     (let found = FindStringSubmatch locationRegex text
      in if length found > 2 then jd\<lparr>jd_Location := TrimSpace (found ! 2)\<rparr> else jd)"

text \<open>\<open>extractJDKeywords\<close> calls \<open>ExtractKeywords\<close>, which ranges over a map: \<open>visit\<close>.\<close>

definition extractJDKeywords :: "string list \<Rightarrow> JobDescription \<Rightarrow> string \<Rightarrow> JobDescription" where
  "extractJDKeywords visit jd text = jd\<lparr>jd_Keywords := ExtractKeywords visit text 20\<rparr>"

definition new_job_description :: "string \<Rightarrow> JobDescription" where
  "new_job_description text =
     \<lparr>jd_Title = [], jd_Company = [], jd_RequiredSkills = [], jd_PreferredSkills = [],
      jd_MinExperience = 0, jd_Education = [], jd_Location = [], jd_Description = [],
      jd_Keywords = [], jd_RawText = text\<rparr>"

definition ParseJobDescription :: "string list \<Rightarrow> string \<Rightarrow> JobDescription" where
  "ParseJobDescription visit text =
     (let jd0 = new_job_description text;
          jd1 = extractJDTitle jd0 text;
          jd2 = extractJDCompany jd1 text;
          jd3 = extractJDSkills jd2 text;
          jd4 = extractJDExperience jd3 text;
          jd5 = extractJDEducation jd4 text;
          jd6 = extractJDLocation jd5 text
      in extractJDKeywords visit jd6 text)"

section \<open>Notions used to state the properties\<close>

text \<open>
  The edit distance between the first \<open>i\<close> bytes of \<open>s1\<close> and the first \<open>j\<close> bytes of
  \<open>s2\<close>, by the recurrence of the matrix, and the invariant of the two loops: the matrix
  has its shape, and row 0, column 0, the rows above \<open>i\<close> and the cells of row \<open>i\<close> left
  of \<open>j\<close> hold that distance.
\<close>

fun dist :: "string \<Rightarrow> string \<Rightarrow> nat \<Rightarrow> nat \<Rightarrow> int" where
  "dist s1 s2 0 j = int j"
| "dist s1 s2 (Suc i) 0 = int (Suc i)"
| "dist s1 s2 (Suc i) (Suc j) =
     min3 (dist s1 s2 i (Suc j) + 1) (dist s1 s2 (Suc i) j + 1)
          (dist s1 s2 i j + (if s1 ! i \<noteq> s2 ! j then 1 else 0))"

definition filled :: "string \<Rightarrow> string \<Rightarrow> nat \<Rightarrow> nat \<Rightarrow> int list list \<Rightarrow> bool" where
  "filled s1 s2 i j matrix =
     (length matrix = length s1 + 1
      \<and> (\<forall>a. a \<le> length s1 \<longrightarrow> length (matrix ! a) = length s2 + 1)
      \<and> (\<forall>a b. a \<le> length s1 \<and> b \<le> length s2 \<and> (a = 0 \<or> b = 0 \<or> a < i \<or> (a = i \<and> b < j))
            \<longrightarrow> matrix ! a ! b = dist s1 s2 a b))"

text \<open>The entry that \<open>extractProjects\<close> appends for a trimmed line.\<close>

definition project_of :: "string \<Rightarrow> Project" where
  "project_of projectLine =
     \<lparr>pr_Name = projectLine, pr_Description = projectLine, pr_Technologies = []\<rparr>"

definition collected :: "string list \<Rightarrow> Project list" where
  "collected following =
     map project_of (filter (\<lambda>projectLine. length projectLine > 10) (map TrimSpace following))"


section \<open>Inputs of the examples\<close>

definition no_personal_info :: PersonalInfo where
  "no_personal_info = \<lparr>pi_Name = [], pi_Email = [], pi_Phone = [], pi_Address = []\<rparr>"

definition resume_with :: "Experience list \<Rightarrow> Resume" where
  "resume_with experience =
     \<lparr>r_PersonalInfo = no_personal_info, r_Education = [], r_Experience = experience,
      r_Skills = [], r_Projects = [], r_Certifications = [], r_RawText = [],
      r_FormatIssues = []\<rparr>"

definition job_with_years :: "int \<Rightarrow> JobDescription" where
  "job_with_years n =
     \<lparr>jd_Title = [], jd_Company = [], jd_RequiredSkills = [], jd_PreferredSkills = [],
      jd_MinExperience = n, jd_Education = [], jd_Location = [], jd_Description = [],
      jd_Keywords = [], jd_RawText = []\<rparr>"

text \<open>An entry from 1 January 2020 to 1 January 2019 (UTC), as \<open>extractExperience\<close> builds
  from a line that names the later month first.\<close>

definition reversed_entry :: Experience where
  "reversed_entry =
     \<lparr>ex_Company = ''Acme'', ex_Position = [], ex_StartDate = 1577836800000000000,
      ex_EndDate = Some 1546300800000000000, ex_Description = [], ex_IsCurrent = False\<rparr>"

text \<open>An entry that started at the epoch and has no end date.\<close>

definition open_entry :: Experience where
  "open_entry =
     \<lparr>ex_Company = ''Acme'', ex_Position = [], ex_StartDate = 0,
      ex_EndDate = None, ex_Description = [], ex_IsCurrent = False\<rparr>"

text \<open>A heading line followed by ten lines of fourteen bytes each.\<close>

definition ten_items :: string where
  "ten_items = ''Projects\<newline>item number 01\<newline>item number 02\<newline>item number 03\<newline>item number 04\<newline>item number 05\<newline>item number 06\<newline>item number 07\<newline>item number 08\<newline>item number 09\<newline>item number 10''"

text \<open>A document library that knows one file, and one that returns the same pages for
  every file; a \<open>time.Parse\<close> that accepts nothing.\<close>

definition one_page :: "PdfPage list" where
  "one_page = [\<lparr>pg_IsNull = False, pg_PlainText = Inr ''John Smith\<newline>python''\<rparr>]"

definition only_cv :: "string \<Rightarrow> string + PdfPage list" where
  "only_cv filename = (if filename = ''cv.pdf'' then Inr one_page else Inl ''no such file'')"

definition always_cv :: "string \<Rightarrow> string + PdfPage list" where
  "always_cv filename = Inr one_page"

definition no_document :: "string \<Rightarrow> string + string list list" where
  "no_document filename = Inl ''no such file''"

definition no_layout :: "string \<Rightarrow> string \<Rightarrow> Time option" where
  "no_layout layout dateStr = None"

section \<open>Helper lemmas\<close>

lemma ToLower_Nil: "ToLower [] = []"
  by (simp add: ToLower_def)

lemma ToLower_eq_Nil: "(ToLower s = []) = (s = [])"
  by (simp add: ToLower_def)

lemma similarity_empty_left: "calculateStringSimilarity [] s = real (length s)"
  by (simp add: calculateStringSimilarity_def)

lemma skill_loop_all_matched:
  assumes "[] \<in> set resumeSet"
  shows "skill_loop resumeSet jobSkills (matched, missing) = (matched @ jobSkills, missing)"
proof (induction jobSkills arbitrary: matched)
  case Nil
  show ?case by simp
next
  case (Cons jobSkill rest)
  show ?case
  proof (cases "ToLower jobSkill = []")
    case True
    then have "ToLower jobSkill \<in> set resumeSet"
      using assms by simp
    then show ?thesis
      using Cons.IH [of "matched @ [jobSkill]"] by (simp add: Let_def)
  next
    case False
    then have "1 \<le> real (length (ToLower jobSkill))"
      by (cases "ToLower jobSkill") simp_all
    then have "calculateStringSimilarity [] (ToLower jobSkill) > 0.8"
      by (simp add: similarity_empty_left)
    then have "list_ex (\<lambda>resumeSkill. calculateStringSimilarity resumeSkill (ToLower jobSkill) > 0.8) resumeSet"
      using assms unfolding list_ex_iff by blast
    then show ?thesis
      using Cons.IH [of "matched @ [jobSkill]"] by (simp add: Let_def)
  qed
qed

lemma CalculateExperienceYears_closed_entries:
  assumes "list_all (\<lambda>e. ex_EndDate e \<noteq> None) (r_Experience resume)"
  shows "CalculateExperienceYears now resume = CalculateExperienceYears now' resume"
  unfolding CalculateExperienceYears_def
proof (rule fold_cong)
  fix exp assume "exp \<in> set (r_Experience resume)"
  then have "ex_EndDate exp \<noteq> None"
    using assms by (simp add: list_all_iff)
  then obtain e where "ex_EndDate exp = Some e" by blast
  then show "(\<lambda>totalYears.
               let endDate = (case ex_EndDate exp of None \<Rightarrow> now | Some e \<Rightarrow> e);
                   duration = Sub endDate (ex_StartDate exp);
                   years = Hours duration / (24 * 365.25)
               in totalYears + years)
           = (\<lambda>totalYears.
               let endDate = (case ex_EndDate exp of None \<Rightarrow> now' | Some e \<Rightarrow> e);
                   duration = Sub endDate (ex_StartDate exp);
                   years = Hours duration / (24 * 365.25)
               in totalYears + years)"
    by simp
qed simp_all

lemma CalculateExperienceYears_reversed:
  "CalculateExperienceYears now (resume_with [reversed_entry]) = - (8760 / 8766)"
  by (simp add: CalculateExperienceYears_def resume_with_def reversed_entry_def Sub_def
      maxDuration_def minDuration_def Hours_def)

lemma CalculateExperienceYears_open:
  "CalculateExperienceYears now (resume_with [open_entry])
     = Hours (Sub now 0) / 8766"
  by (simp add: CalculateExperienceYears_def resume_with_def open_entry_def)







lemma collect_loop_eq:
  "collect_loop lines i j projects = projects @ collected (take (i + 10 - j) (drop j lines))"
proof (induction lines i j projects rule: collect_loop.induct)
  case (1 lines i j projects)
  show ?case
  proof (cases "j < length lines \<and> j < i + 10")
    case True
    then have "drop j lines = lines ! j # drop (j + 1) lines"
      by (simp add: Cons_nth_drop_Suc)
    moreover have "i + 10 - j = Suc (i + 10 - (j + 1))"
      using True by arith
    ultimately have split: "take (i + 10 - j) (drop j lines)
                        = lines ! j # take (i + 10 - (j + 1)) (drop (j + 1) lines)"
      by (simp del: drop_Suc)
    show ?thesis
      using True "1.IH" [OF True refl]
      by (subst collect_loop.simps) (simp add: split collected_def project_of_def Let_def)
  next
    case False
    then have no_entry: "collected (take (i + 10 - j) (drop j lines)) = []"
      by (auto simp add: collected_def)
    have "collect_loop lines i j projects = projects"
      using False by (subst collect_loop.simps) auto
    then show ?thesis by (simp only: no_entry append_Nil2)
  qed
qed

lemma scan_loop_eq:
  "scan_loop lines i projects
     = projects @ collected (take 9 (tl (dropWhile (\<lambda>line. \<not> projectRegex_MatchString line) (drop i lines))))"
proof (induction lines i projects rule: scan_loop.induct)
  case (1 lines i projects)
  show ?case
  proof (cases "i < length lines")
    case True
    then have split: "drop i lines = lines ! i # drop (i + 1) lines"
      by (simp add: Cons_nth_drop_Suc)
    show ?thesis
    proof (cases "projectRegex_MatchString (lines ! i)")
      case True
      show ?thesis
        using \<open>i < length lines\<close> True
        by (subst scan_loop.simps) (simp add: split collect_loop_eq del: drop_Suc)
    next
      case False
      show ?thesis
        using \<open>i < length lines\<close> False "1.IH" [OF \<open>i < length lines\<close> False]
        by (subst scan_loop.simps) (simp add: split)
    qed
  next
    case False
    then show ?thesis
      by (subst scan_loop.simps) (simp add: collected_def)
  qed
qed

lemma map_of_incr: "map_of (incr t m) = (map_of m)(t \<mapsto> count_of m t + 1)"
proof (induction m)
  case Nil
  show ?case by (simp add: count_of_def)
next
  case (Cons p m)
  obtain k n where p: "p = (k, n)" by (cases p)
  show ?case
  proof (cases "k = t")
    case True
    then show ?thesis by (simp add: p count_of_def fun_eq_iff)
  next
    case False
    then have "count_of ((k, n) # m) t = count_of m t"
      by (simp add: count_of_def)
    then show ?thesis
      using False Cons.IH by (auto simp add: p fun_eq_iff)
  qed
qed

lemma count_of_Nil: "count_of [] u = 0"
  by (simp add: count_of_def)

lemma count_of_incr: "count_of (incr t m) u = count_of m u + (if u = t then 1 else 0)"
  by (simp add: count_of_def [of "incr t m"] map_of_incr) (simp add: count_of_def)

lemma count_of_fold_incr: "count_of (fold incr ts m) u = count_of m u + int (count_list ts u)"
  by (induction ts arbitrary: m) (simp_all add: count_of_incr)

lemma keys_incr: "fst ` set (incr t m) = insert t (fst ` set m)"
  by (induction t m rule: incr.induct) auto

lemma keys_fold_incr: "fst ` set (fold incr ts m) = set ts \<union> fst ` set m"
  by (induction ts arbitrary: m) (auto simp add: keys_incr)

lemma distinct_keys_incr: "distinct (map fst m) \<Longrightarrow> distinct (map fst (incr t m))"
proof (induction t m rule: incr.induct)
  case (1 token)
  show ?case by simp
next
  case (2 token k n m)
  then show ?case
    using keys_incr [of token m] by (auto simp add: image_iff simp flip: set_map)
qed

lemma distinct_keys_fold_incr:
  "distinct (map fst m) \<Longrightarrow> distinct (map fst (fold incr ts m))"
  by (induction ts arbitrary: m) (simp_all add: distinct_keys_incr)








lemma mset_sort_insert: "mset (sort_insert lt x ys) = add_mset x (mset ys)"
  by (induction ys) simp_all

lemma mset_sort_Slice: "mset (sort_Slice xs lt) = mset xs"
  unfolding sort_Slice_def by (induction xs) (simp_all add: mset_sort_insert)

lemma set_sort_insert: "set (sort_insert lt x ys) = insert x (set ys)"
  using mset_sort_insert [of lt x ys] by (metis set_mset_add_mset_insert set_mset_mset)

lemma sorted_sort_insert:
  fixes f :: "'a \<Rightarrow> int"
  assumes "sorted_wrt (\<lambda>a b. f a \<ge> f b) ys"
  shows "sorted_wrt (\<lambda>a b. f a \<ge> f b) (sort_insert (\<lambda>a b. f a > f b) x ys)"
  using assms
proof (induction ys)
  case Nil
  show ?case by simp
next
  case (Cons y ys)
  show ?case
  proof (cases "f y > f x")
    case True
    then show ?thesis
      using Cons by (auto simp add: set_sort_insert)
  next
    case False
    then show ?thesis
      using Cons.prems by auto
  qed
qed

lemma sorted_sort_Slice:
  fixes f :: "'a \<Rightarrow> int"
  shows "sorted_wrt (\<lambda>a b. f a \<ge> f b) (sort_Slice xs (\<lambda>a b. f a > f b))"
  unfolding sort_Slice_def by (induction xs) (simp_all add: sorted_sort_insert)

text \<open>
  A slice that is already in falling order is left as it is. So every falling order of
  the entries, whatever it does with equal scores, is the outcome of the model for some
  visiting order, namely for that order itself.
\<close>

lemma sort_Slice_sorted_id:
  fixes f :: "'a \<Rightarrow> int"
  assumes "sorted_wrt (\<lambda>a b. f a \<ge> f b) xs"
  shows "sort_Slice xs (\<lambda>a b. f a > f b) = xs"
  using assms
proof (induction xs)
  case Nil
  show ?case by (simp add: sort_Slice_def)
next
  case (Cons x xs)
  then have tail: "sort_Slice xs (\<lambda>a b. f a > f b) = xs" by simp
  have "sort_insert (\<lambda>a b. f a > f b) x xs = x # xs"
    using Cons.prems by (cases xs) auto
  then show ?case
    using tail by (simp add: sort_Slice_def)
qed

lemma sorted_wrt_take_drop:
  assumes "sorted_wrt R xs" and "a \<in> set (take k xs)" and "b \<in> set (drop k xs)"
  shows "R a b"
proof -
  have "sorted_wrt R (take k xs @ drop k xs)" using assms(1) by simp
  then show ?thesis
    using assms(2,3) unfolding sorted_wrt_append by blast
qed



lemma fold_upt_invariant:
  assumes "P a x" and "a \<le> b"
    and "\<And>k y. a \<le> k \<Longrightarrow> k < b \<Longrightarrow> P k y \<Longrightarrow> P (Suc k) (f k y)"
  shows "P b (fold f [a..<b] x)"
  using assms(2,3)
proof (induction b)
  case 0
  then show ?case using assms(1) by simp
next
  case (Suc b)
  show ?case
  proof (cases "a = Suc b")
    case True
    then show ?thesis using assms(1) by simp
  next
    case False
    then have le: "a \<le> b" using Suc.prems(1) by simp
    have "P b (fold f [a..<b] x)"
      by (rule Suc.IH [OF le]) (simp add: Suc.prems(2))
    then have "P (Suc b) (f b (fold f [a..<b] x))"
      using le by (simp add: Suc.prems(2))
    then show ?thesis using le by simp
  qed
qed

lemma first_row:
  "length row = n \<Longrightarrow> m \<le> n \<Longrightarrow>
   length (fold (\<lambda>j row. row[j := int j]) [0..<m] row) = n
   \<and> (\<forall>b < n. fold (\<lambda>j row. row[j := int j]) [0..<m] row ! b = (if b < m then int b else row ! b))"
proof (induction m)
  case 0
  then show ?case by simp
next
  case (Suc m)
  then show ?case by (auto simp add: nth_list_update)
qed

lemma dist_row0: "dist s1 s2 0 b = int b"
  by simp

lemma dist_col0: "dist s1 s2 a 0 = int a"
  by (cases a) simp_all

lemma new_matrix_filled: "filled s1 s2 1 1 (new_matrix (length s1) (length s2))"
proof -
  let ?n1 = "length s1" and ?n2 = "length s2"
  let ?rows = "map (\<lambda>i. (replicate (?n2 + 1) 0)[0 := int i]) [0..<?n1 + 1]"
  let ?row0 = "fold (\<lambda>j row. row[j := int j]) [0..<?n2 + 1] (?rows ! 0)"
  have m: "new_matrix ?n1 ?n2 = ?rows[0 := ?row0]"
    by (simp add: new_matrix_def Let_def)
  have rows: "a \<le> ?n1 \<Longrightarrow> ?rows ! a = (replicate (?n2 + 1) 0)[0 := int a]" for a
    using nth_map [of a "[0..<?n1 + 1]"] by (simp del: upt_Suc)
  have len0: "length (?rows ! 0) = ?n2 + 1"
    by (simp only: rows [of 0] le0 length_list_update length_replicate)
  have row0: "length ?row0 = ?n2 + 1 \<and> (\<forall>b < ?n2 + 1. ?row0 ! b = int b)"
    using first_row [OF len0, of "?n2 + 1"] by simp
  show ?thesis
    unfolding filled_def m
  proof (intro conjI allI impI)
    show "length (?rows[0 := ?row0]) = ?n1 + 1" by simp
  next
    fix a assume "a \<le> ?n1"
    then show "length (?rows[0 := ?row0] ! a) = ?n2 + 1"
      using row0 rows [of a] by (cases "a = 0") (simp_all del: upt_Suc)
  next
    fix a b
    assume h: "a \<le> ?n1 \<and> b \<le> ?n2 \<and> (a = 0 \<or> b = 0 \<or> a < 1 \<or> (a = 1 \<and> b < 1))"
    show "?rows[0 := ?row0] ! a ! b = dist s1 s2 a b"
    proof (cases "a = 0")
      case True
      then show ?thesis using h row0 by (simp del: upt_Suc)
    next
      case False
      then have "b = 0" using h by auto
      then show ?thesis using False h rows [of a] by (simp add: dist_col0 del: upt_Suc)
    qed
  qed
qed

lemma fill_cell_filled:
  assumes "filled s1 s2 i j matrix" and "1 \<le> i" and "i \<le> length s1" and "1 \<le> j" and "j \<le> length s2"
  shows "filled s1 s2 i (Suc j) (fill_cell s1 s2 i j matrix)"
proof -
  obtain i' j' where i: "i = Suc i'" and j: "j = Suc j'"
    using assms(2,4) by (metis One_nat_def Suc_le_D)
  have len: "length matrix = length s1 + 1"
    and rows: "\<And>a. a \<le> length s1 \<Longrightarrow> length (matrix ! a) = length s2 + 1"
    and cells: "\<And>a b. a \<le> length s1 \<Longrightarrow> b \<le> length s2 \<Longrightarrow> a = 0 \<or> b = 0 \<or> a < i \<or> (a = i \<and> b < j)
                  \<Longrightarrow> matrix ! a ! b = dist s1 s2 a b"
    using assms(1) unfolding filled_def by blast+
  have up: "matrix ! i' ! j = dist s1 s2 i' j"
    using cells [of i' j] assms(3,5) i by simp
  have left: "matrix ! i ! j' = dist s1 s2 i j'"
    using cells [of i j'] assms(3,5) j by simp
  have diag: "matrix ! i' ! j' = dist s1 s2 i' j'"
    using cells [of i' j'] assms(3,5) i j by simp
  define v where "v = min3 (matrix ! (i - 1) ! j + 1) (matrix ! i ! (j - 1) + 1)
                        (matrix ! (i - 1) ! (j - 1) + (if s1 ! (i - 1) \<noteq> s2 ! (j - 1) then 1 else 0))"
  have v: "v = dist s1 s2 i j"
    using up left diag by (simp add: v_def i j)
  have m': "fill_cell s1 s2 i j matrix = matrix[i := (matrix ! i)[j := v]]"
    by (simp add: fill_cell_def v_def Let_def)
  show ?thesis
    unfolding filled_def m'
  proof (intro conjI allI impI)
    show "length (matrix[i := (matrix ! i)[j := v]]) = length s1 + 1"
      using len by simp
  next
    fix a assume "a \<le> length s1"
    then show "length (matrix[i := (matrix ! i)[j := v]] ! a) = length s2 + 1"
      using rows [of a] len by (cases "a = i") simp_all
  next
    fix a b
    assume h: "a \<le> length s1 \<and> b \<le> length s2 \<and> (a = 0 \<or> b = 0 \<or> a < i \<or> (a = i \<and> b < Suc j))"
    show "matrix[i := (matrix ! i)[j := v]] ! a ! b = dist s1 s2 a b"
    proof (cases "a = i \<and> b = j")
      case True
      then show ?thesis
        using v len rows [of i] assms(3,5) by simp
    next
      case False
      then have same: "matrix[i := (matrix ! i)[j := v]] ! a ! b = matrix ! a ! b"
        using len h by (cases "a = i") simp_all
      have "a = 0 \<or> b = 0 \<or> a < i \<or> (a = i \<and> b < j)"
        using h False by auto
      then show ?thesis
        using same cells [of a b] h by simp
    qed
  qed
qed

lemma filled_next_row:
  assumes "filled s1 s2 i (length s2 + 1) matrix"
  shows "filled s1 s2 (Suc i) 1 matrix"
proof -
  have len: "length matrix = length s1 + 1"
    and rows: "\<forall>a. a \<le> length s1 \<longrightarrow> length (matrix ! a) = length s2 + 1"
    and cells: "\<And>a b. a \<le> length s1 \<Longrightarrow> b \<le> length s2
                  \<Longrightarrow> a = 0 \<or> b = 0 \<or> a < i \<or> (a = i \<and> b < length s2 + 1)
                  \<Longrightarrow> matrix ! a ! b = dist s1 s2 a b"
    using assms unfolding filled_def by blast+
  have "matrix ! a ! b = dist s1 s2 a b"
    if "a \<le> length s1 \<and> b \<le> length s2 \<and> (a = 0 \<or> b = 0 \<or> a < Suc i \<or> (a = Suc i \<and> b < 1))"
    for a b
  proof -
    have "a = 0 \<or> b = 0 \<or> a < i \<or> (a = i \<and> b < length s2 + 1)"
      using that by auto
    then show ?thesis
      using that cells [of a b] by blast
  qed
  then show ?thesis
    unfolding filled_def using len rows by blast
qed

lemma fill_row_filled:
  assumes "filled s1 s2 i 1 matrix" and "1 \<le> i" and "i \<le> length s1"
  shows "filled s1 s2 (Suc i) 1
           (fold (\<lambda>j m'. fill_cell s1 s2 i j m') [1..<length s2 + 1] matrix)"
proof -
  have "filled s1 s2 i (length s2 + 1)
          (fold (\<lambda>j m'. fill_cell s1 s2 i j m') [1..<length s2 + 1] matrix)"
  proof (rule fold_upt_invariant [where P = "\<lambda>j m. filled s1 s2 i j m"])
    show "filled s1 s2 i 1 matrix" by (rule assms(1))
    show "1 \<le> length s2 + 1" by simp
    fix k y assume "1 \<le> k" "k < length s2 + 1" "filled s1 s2 i k y"
    then show "filled s1 s2 i (Suc k) (fill_cell s1 s2 i k y)"
      using fill_cell_filled [of s1 s2 i k y] assms(2,3) by simp
  qed
  then show ?thesis
    by (rule filled_next_row)
qed

lemma fill_matrix_filled:
  "filled s1 s2 (length s1 + 1) 1 (fill_matrix s1 s2 (new_matrix (length s1) (length s2)))"
  unfolding fill_matrix_def
proof (rule fold_upt_invariant [where P = "\<lambda>i m. filled s1 s2 i 1 m"])
  show "filled s1 s2 1 1 (new_matrix (length s1) (length s2))" by (rule new_matrix_filled)
  show "1 \<le> length s1 + 1" by simp
  fix k y assume "1 \<le> k" "k < length s1 + 1" "filled s1 s2 k 1 y"
  then show "filled s1 s2 (Suc k) 1 (fold (fill_cell s1 s2 k) [1..<length s2 + 1] y)"
    using fill_row_filled [of s1 s2 k y] by simp
qed

lemma distance_eq:
  "fill_matrix s1 s2 (new_matrix (length s1) (length s2)) ! length s1 ! length s2
     = dist s1 s2 (length s1) (length s2)"
  using fill_matrix_filled [of s1 s2] unfolding filled_def by simp

lemma min3_commute: "min3 a b c = min3 b a c"
  by (simp add: min3_def)

lemma dist_symmetric: "dist s1 s2 i j = dist s2 s1 j i"
proof (induction s1 s2 i j rule: dist.induct)
  case (1 s1 s2 j)
  show ?case by (simp add: dist_col0)
next
  case (2 s1 s2 i)
  show ?case by simp
next
  case (3 s1 s2 i j)
  then show ?case
    by (simp add: min3_commute [of "dist s2 s1 (Suc j) i + 1"] eq_commute [of "s1 ! i"])
qed

lemma dist_nonneg: "0 \<le> dist s1 s2 i j"
  by (induction s1 s2 i j rule: dist.induct) (simp_all add: min3_def)

lemma dist_diagonal: "dist s s i i = 0"
proof (induction i)
  case 0
  show ?case by simp
next
  case (Suc i)
  have "0 \<le> dist s s i (Suc i)" and "0 \<le> dist s s (Suc i) i"
    by (rule dist_nonneg)+
  then show ?case using Suc by (simp add: min3_def)
qed

lemma similarity_nonempty:
  assumes "s1 \<noteq> []" and "s2 \<noteq> []"
  shows "calculateStringSimilarity s1 s2
           = 1 - real_of_int (dist s1 s2 (length s1) (length s2)) / real (max (length s1) (length s2))"
  using assms by (simp add: calculateStringSimilarity_def distance_eq Let_def)

text \<open>
  Apart from the pair of empty strings, the similarity behaves as specified: it is
  symmetric, and a string that is not empty has similarity 1 with itself.
\<close>

lemma similarity_symmetric: "calculateStringSimilarity s1 s2 = calculateStringSimilarity s2 s1"
proof (cases "s1 = [] \<or> s2 = []")
  case True
  then show ?thesis by (auto simp add: calculateStringSimilarity_def)
next
  case False
  then show ?thesis
    by (simp add: similarity_nonempty dist_symmetric [of s1 s2] max.commute)
qed

lemma similarity_self: "s \<noteq> [] \<Longrightarrow> calculateStringSimilarity s s = 1"
  by (simp add: similarity_nonempty dist_diagonal)


section \<open>The claims\<close>

text \<open>
  C1 (as claimed: \<open>educationMatches\<close> on the candidate degree \<open>B.S.\<close> and the required
  degree \<open>bachelor\<close> is true, through the alias table). The function returns false there:
  the lower-cased candidate \<open>b.s.\<close> contains neither \<open>bachelor\<close> nor any of the aliases
  \<open>bs\<close>, \<open>ba\<close>, \<open>btech\<close>, \<open>bsc\<close>, \<open>bachelor's\<close>, because the table has no dotted form.
\<close>

theorem C1_educationMatches_BS_bachelor_false:
  "educationMatches ''B.S.'' ''bachelor'' = False
   \<and> ToLower ''B.S.'' = ''b.s.''
   \<and> list_ex (Contains ''b.s.'') [''bachelor'', ''bs'', ''ba'', ''btech'', ''bsc'', ''bachelor's''] = False"
  by code_simp

text \<open>
  C2 (as claimed: the similarity of a string with itself is 1.0, in particular for the
  empty string, and the similarity is symmetric). On two empty strings the function
  leaves through its first test and returns \<open>float64(len(s2))\<close>, which is 0: the later
  test \<open>maxLen == 0\<close> that would return 1.0 is never reached. (The rest of the claim
  holds: see \<open>similarity_symmetric\<close> and \<open>similarity_self\<close>.)
\<close>

theorem C2_similarity_empty_empty_is_zero:
  "calculateStringSimilarity '''' '''' = 0"
  by (simp add: calculateStringSimilarity_def)

text \<open>
  C3 (as claimed: the \<open>ExperienceResult\<close> of \<open>AnalyzeResume\<close> has its score between 0 and
  1, also when an entry ends before it starts). The score is capped at 1 only: for a
  resume whose single entry runs from 1 January 2020 back to 1 January 2019 and a job that
  asks for 2 years, the candidate has \<open>- 8760 / 8766\<close> years and the score is negative.
\<close>

theorem C3_experience_score_negative:
  "xr_Score (ar_ExperienceMatch (AnalyzeResume now (resume_with [reversed_entry]) (job_with_years 2)))
     = - (4380 / 8766)
   \<and> xr_Score (ar_ExperienceMatch (AnalyzeResume now (resume_with [reversed_entry]) (job_with_years 2)))
     < 0"
  by (simp add: AnalyzeResume_def calculateExperienceMatch_def CalculateExperienceYears_reversed
      job_with_years_def Let_def)

text \<open>
  C4 (amended): \<open>ParseResume\<close> is a pure function of its input, the file name and what
  the document library returns for that file: it reads no clock and ranges over no map.
  \<open>ParseJobDescription\<close> is a function of its input text and of the order in which the
  \<open>range\<close> of \<open>ExtractKeywords\<close> visits the keys of the map \<open>termFreq\<close>: that order
  decides the field \<open>Keywords\<close> only, and every other field is a function of the text
  alone. \<open>AnalyzeResume\<close> and \<open>AnalyzeResumeStandalone\<close> are functions of their inputs
  and of the clock, which \<open>CalculateExperienceYears\<close> reads for the entries that have no
  end date: on a resume all of whose experience entries have an end date, the result is
  the same whatever the clock reads.
\<close>

theorem C4_dependence_on_ambient_state:
  assumes "list_all (\<lambda>e. ex_EndDate e \<noteq> None) (r_Experience resume)"
    and "pdf_Open filename = pdf_Open' filename"
    and "document_Open filename = document_Open' filename"
  shows "ParseResume time_Parse pdf_Open document_Open filename
           = ParseResume time_Parse pdf_Open' document_Open' filename
         \<and> ParseJobDescription visit text
           = (ParseJobDescription visit' text)\<lparr>jd_Keywords := ExtractKeywords visit text 20\<rparr>
         \<and> AnalyzeResume now resume jobDesc = AnalyzeResume now' resume jobDesc
         \<and> AnalyzeResumeStandalone now1 now2 now3 resume
           = AnalyzeResumeStandalone now1' now2' now3' resume"
proof -
  have years: "CalculateExperienceYears t resume = CalculateExperienceYears 0 resume" for t
    using assms(1) by (rule CalculateExperienceYears_closed_entries)
  have "calculateExperienceMatch now resume jobDesc = calculateExperienceMatch now' resume jobDesc"
    unfolding calculateExperienceMatch_def by (simp add: years [of now] years [of now'])
  moreover have "calculateExperienceScoreStandalone now1 resume
                   = calculateExperienceScoreStandalone now1' resume"
    unfolding calculateExperienceScoreStandalone_def by (simp add: years [of now1] years [of now1'])
  moreover have "generateStandaloneSuggestions now2 resume f
                   = generateStandaloneSuggestions now2' resume f" for f
    unfolding generateStandaloneSuggestions_def by (simp add: years [of now2] years [of now2'])
  moreover have "CalculateExperienceYears now3 resume = CalculateExperienceYears now3' resume"
    by (simp add: years [of now3] years [of now3'])
  ultimately have analysis:
    "AnalyzeResume now resume jobDesc = AnalyzeResume now' resume jobDesc
     \<and> AnalyzeResumeStandalone now1 now2 now3 resume
       = AnalyzeResumeStandalone now1' now2' now3' resume"
    by (simp add: AnalyzeResume_def AnalyzeResumeStandalone_def)
  have pdf: "parsePDF pdf_Open filename = parsePDF pdf_Open' filename"
    using assms(2) by (simp add: parsePDF_def)
  have docx: "parseDOCX document_Open filename = parseDOCX document_Open' filename"
    using assms(3) by (simp add: parseDOCX_def)
  have parsed:
    "ParseResume time_Parse pdf_Open document_Open filename
       = ParseResume time_Parse pdf_Open' document_Open' filename"
    by (simp only: ParseResume_def pdf docx)
  have job:
    "ParseJobDescription visit text
       = (ParseJobDescription visit' text)\<lparr>jd_Keywords := ExtractKeywords visit text 20\<rparr>"
    by (simp add: ParseJobDescription_def extractJDKeywords_def Let_def)
  show ?thesis
    using parsed job analysis by simp
qed

theorem C4_witness:
  "list_all (\<lambda>e. ex_EndDate e \<noteq> None) (r_Experience (resume_with [reversed_entry]))
   \<and> only_cv ''cv.pdf'' = always_cv ''cv.pdf''
   \<and> ParseResume no_layout only_cv no_document ''cv.pdf''
       = ParseResume no_layout always_cv no_document ''cv.pdf''
   \<and> AnalyzeResume 0 (resume_with [reversed_entry]) (job_with_years 2)
       = AnalyzeResume 31557600000000000 (resume_with [reversed_entry]) (job_with_years 2)
   \<and> AnalyzeResumeStandalone 0 1 2 (resume_with [reversed_entry])
       = AnalyzeResumeStandalone 31557600000000000 31557600000000001 31557600000000002
           (resume_with [reversed_entry])"
proof -
  have closed: "list_all (\<lambda>e. ex_EndDate e \<noteq> None) (r_Experience (resume_with [reversed_entry]))"
    by (simp add: resume_with_def reversed_entry_def)
  have same_file: "only_cv ''cv.pdf'' = always_cv ''cv.pdf''"
    by (simp add: only_cv_def always_cv_def)
  show ?thesis
    using closed same_file
      C4_dependence_on_ambient_state
        [where resume = "resume_with [reversed_entry]" and filename = "''cv.pdf''"
           and pdf_Open = only_cv and pdf_Open' = always_cv
           and document_Open = no_document and document_Open' = no_document
           and time_Parse = no_layout and jobDesc = "job_with_years 2"
           and now = 0 and now' = 31557600000000000
           and ?now1.0 = 0 and ?now2.0 = 1 and ?now3.0 = 2
           and now1' = 31557600000000000 and now2' = 31557600000000001
           and now3' = 31557600000000002]
    by simp
qed

text \<open>
  A resume with an entry that has no end date is analysed differently at two readings of
  the clock, with and without a job description; and the text \<open>alpha beta\<close> is parsed
  into two different job descriptions under the two orders in which its two keys can be
  visited.
\<close>

theorem C4_counterexample:
  "AnalyzeResume 0 (resume_with [open_entry]) (job_with_years 2)
     \<noteq> AnalyzeResume 31557600000000000 (resume_with [open_entry]) (job_with_years 2)
   \<and> AnalyzeResumeStandalone 0 0 0 (resume_with [open_entry])
     \<noteq> AnalyzeResumeStandalone 31557600000000000 31557600000000000 31557600000000000
          (resume_with [open_entry])
   \<and> visits_keys_of [''alpha'', ''beta''] ''alpha beta''
   \<and> visits_keys_of [''beta'', ''alpha''] ''alpha beta''
   \<and> ParseJobDescription [''alpha'', ''beta''] ''alpha beta''
     \<noteq> ParseJobDescription [''beta'', ''alpha''] ''alpha beta''"
proof -
  have "xr_YearsCandidate (ar_ExperienceMatch
          (AnalyzeResume 0 (resume_with [open_entry]) (job_with_years 2)))
        \<noteq> xr_YearsCandidate (ar_ExperienceMatch
          (AnalyzeResume 31557600000000000 (resume_with [open_entry]) (job_with_years 2)))"
    by (simp add: AnalyzeResume_def calculateExperienceMatch_def CalculateExperienceYears_open
        Sub_def maxDuration_def minDuration_def Hours_def Let_def)
  then have with_job:
    "AnalyzeResume 0 (resume_with [open_entry]) (job_with_years 2)
       \<noteq> AnalyzeResume 31557600000000000 (resume_with [open_entry]) (job_with_years 2)"
    by metis
  have "xr_YearsCandidate (ar_ExperienceMatch
          (AnalyzeResumeStandalone 0 0 0 (resume_with [open_entry])))
        \<noteq> xr_YearsCandidate (ar_ExperienceMatch
          (AnalyzeResumeStandalone 31557600000000000 31557600000000000 31557600000000000
             (resume_with [open_entry])))"
    by (simp add: AnalyzeResumeStandalone_def CalculateExperienceYears_open
        Sub_def maxDuration_def minDuration_def Hours_def Let_def)
  then have standalone:
    "AnalyzeResumeStandalone 0 0 0 (resume_with [open_entry])
       \<noteq> AnalyzeResumeStandalone 31557600000000000 31557600000000000 31557600000000000
            (resume_with [open_entry])"
    by metis
  have visits:
    "visits_keys_of [''alpha'', ''beta''] ''alpha beta''
     \<and> visits_keys_of [''beta'', ''alpha''] ''alpha beta''"
    by code_simp
  have field: "jd_Keywords (ParseJobDescription visit t) = ExtractKeywords visit t 20"
    for visit t
    by (simp add: ParseJobDescription_def extractJDKeywords_def Let_def)
  have "ExtractKeywords [''alpha'', ''beta''] ''alpha beta'' 20
          \<noteq> ExtractKeywords [''beta'', ''alpha''] ''alpha beta'' 20"
    by code_simp
  then have job:
    "ParseJobDescription [''alpha'', ''beta''] ''alpha beta''
       \<noteq> ParseJobDescription [''beta'', ''alpha''] ''alpha beta''"
    using field by metis
  show ?thesis
    using with_job standalone visits job by simp
qed

text \<open>
  C5: \<open>CalculateSkillMatch\<close> on the resume skills \<open>python\<close>, \<open>java\<close> and the job skills
  \<open>python\<close>, \<open>go\<close> returns the percentage 50, the matched list \<open>[python]\<close> and the
  missing list \<open>[go]\<close>; the similarity of \<open>go\<close> to \<open>python\<close> is 1/6 and to \<open>java\<close>
  is 0, both at most 0.8.
\<close>

theorem C5_skill_match_example:
  "CalculateSkillMatch [''python'', ''java''] [''python'', ''go''] = (50, [''python''], [''go''])
   \<and> calculateStringSimilarity ''python'' ''go'' = 1 / 6
   \<and> calculateStringSimilarity ''java'' ''go'' = 0"
  by code_simp

text \<open>
  C6 (amended): project extraction collects from the next 9 lines after the first line
  that matches the project-keyword pattern: every one of those 9 following lines whose
  trimmed length exceeds 10 becomes a Project entry, with Name equal to Description, in
  the order of the lines, and no line beyond the ninth following line is collected.
\<close>

theorem C6_projects_from_nine_following_lines:
  "r_Projects (extractProjects resume text)
     = r_Projects resume
       @ map project_of
           (filter (\<lambda>projectLine. length projectLine > 10)
              (map TrimSpace
                 (take 9 (tl (dropWhile (\<lambda>line. \<not> projectRegex_MatchString line)
                                        (Split text CHR 0x0A))))))"
  by (simp add: extractProjects_def scan_loop_eq collected_def)

theorem C6_counterexample:
  "Split ten_items CHR 0x0A
     = [''Projects'', ''item number 01'', ''item number 02'', ''item number 03'',
        ''item number 04'', ''item number 05'', ''item number 06'', ''item number 07'',
        ''item number 08'', ''item number 09'', ''item number 10'']
   \<and> length (TrimSpace ''item number 10'') = 14
   \<and> map pr_Name (r_Projects (extractProjects (resume_with []) ten_items))
     = [''item number 01'', ''item number 02'', ''item number 03'',
        ''item number 04'', ''item number 05'', ''item number 06'', ''item number 07'',
        ''item number 08'', ''item number 09'']"
  by code_simp

text \<open>
  C7 (amended): for every text, every \<open>topK\<close> and every order in which the \<open>range\<close>
  over \<open>termFreq\<close> visits its keys, \<open>ExtractKeywords\<close> returns distinct tokens of the
  text, as many as \<open>topK\<close> allows and the text has (none for a negative \<open>topK\<close>), in
  the order of falling raw term frequency, and no token left out is more frequent than a
  token returned. The order of terms of equal frequency follows the visit of the map,
  which the language leaves open: it is not the order of first occurrence, and the output
  is not a function of the text alone.
\<close>

theorem C7_keywords_by_falling_frequency:
  assumes "visits_keys_of visit text"
  shows "distinct (ExtractKeywords visit text topK)
         \<and> set (ExtractKeywords visit text topK) \<subseteq> set (Tokenize text)
         \<and> length (ExtractKeywords visit text topK) = min (nat topK) (card (set (Tokenize text)))
         \<and> sorted_wrt (\<lambda>a b. count_list (Tokenize text) a \<ge> count_list (Tokenize text) b)
              (ExtractKeywords visit text topK)
         \<and> (\<forall>t \<in> set (Tokenize text) - set (ExtractKeywords visit text topK).
              \<forall>k \<in> set (ExtractKeywords visit text topK).
                count_list (Tokenize text) t \<le> count_list (Tokenize text) k)"
proof -
  define tokens where "tokens = Tokenize text"
  define termFreq where "termFreq = fold incr tokens []"
  define scores where "scores = map (\<lambda>term. (term, count_of termFreq term)) visit"
  define sorted where "sorted = sort_Slice scores (\<lambda>a b. snd a > snd b)"
  define kws where "kws = ExtractKeywords visit text topK"
  have kws: "kws = map fst (take (nat topK) sorted)"
    by (simp add: kws_def ExtractKeywords_def sorted_def scores_def termFreq_def tokens_def Let_def)
  have freq: "count_of termFreq t = int (count_list tokens t)" for t
    by (simp add: termFreq_def count_of_fold_incr count_of_Nil)
  have keys_distinct: "distinct (map fst termFreq)"
    unfolding termFreq_def by (rule distinct_keys_fold_incr) simp
  have keys_set: "set (map fst termFreq) = set tokens"
    using keys_fold_incr [of tokens "[]"] by (simp add: termFreq_def)
  have visit_distinct: "distinct visit"
    using assms by (simp add: visits_keys_of_def)
  have visit_set: "set visit = set tokens"
    using assms keys_set by (simp add: visits_keys_of_def termFreq_def tokens_def)
  have perm: "mset sorted = mset scores"
    by (simp add: sorted_def mset_sort_Slice)
  have "mset (map fst sorted) = mset (map fst scores)"
    using perm by (metis mset_map)
  also have "map fst scores = visit"
    by (simp add: scores_def comp_def)
  finally have names: "mset (map fst sorted) = mset visit" .
  have names_distinct: "distinct (map fst sorted)"
    using names visit_distinct by (metis mset_eq_imp_distinct_iff)
  have names_set: "set (map fst sorted) = set tokens"
    using names visit_set by (metis mset_eq_setD)
  have names_length: "length sorted = card (set tokens)"
  proof -
    have "length (map fst sorted) = length visit"
      using names by (metis size_mset)
    then show ?thesis
      using visit_distinct visit_set by (simp add: distinct_card [symmetric])
  qed
  have pair: "snd p = int (count_list tokens (fst p))" if p: "p \<in> set sorted" for p
  proof -
    have "p \<in> set scores" using p perm by (metis mset_eq_setD)
    then show ?thesis by (auto simp add: scores_def freq)
  qed
  have falling: "sorted_wrt (\<lambda>a b. snd a \<ge> snd b) sorted"
    unfolding sorted_def by (rule sorted_sort_Slice)
  have falling_names: "sorted_wrt (\<lambda>a b. count_list tokens a \<ge> count_list tokens b) (map fst sorted)"
    unfolding sorted_wrt_map
    by (rule sorted_wrt_mono_rel [OF _ falling]) (simp add: pair)
  have kws_take: "kws = take (nat topK) (map fst sorted)"
    by (simp add: kws take_map)
  have c1: "distinct kws"
    using names_distinct by (simp add: kws_take)
  have c2: "set kws \<subseteq> set tokens"
    using names_set set_take_subset [of "nat topK" "map fst sorted"] by (simp add: kws_take)
  have c3: "length kws = min (nat topK) (card (set tokens))"
    using names_length by (simp add: kws_take min.commute)
  have c4: "sorted_wrt (\<lambda>a b. count_list tokens a \<ge> count_list tokens b) kws"
    unfolding kws_take using falling_names by (rule sorted_wrt_take)
  have c5: "count_list tokens t \<le> count_list tokens k"
    if t: "t \<in> set tokens - set kws" and k: "k \<in> set kws" for t k
  proof -
    have "t \<in> set (take (nat topK) (map fst sorted) @ drop (nat topK) (map fst sorted))"
      using t names_set by simp
    then have "t \<in> set (drop (nat topK) (map fst sorted))"
      using t unfolding set_append kws_take by blast
    then show ?thesis
      using sorted_wrt_take_drop [OF falling_names, of k "nat topK" t] k by (simp add: kws_take)
  qed
  show ?thesis
    using c1 c2 c3 c4 c5 unfolding kws_def tokens_def by blast
qed



theorem C7_witness:
  "visits_keys_of [''beta'', ''alpha''] ''alpha beta''
   \<and> distinct (ExtractKeywords [''beta'', ''alpha''] ''alpha beta'' 1)
   \<and> set (ExtractKeywords [''beta'', ''alpha''] ''alpha beta'' 1) \<subseteq> set (Tokenize ''alpha beta'')
   \<and> length (ExtractKeywords [''beta'', ''alpha''] ''alpha beta'' 1)
       = min (nat 1) (card (set (Tokenize ''alpha beta'')))"
proof -
  have visit: "visits_keys_of [''beta'', ''alpha''] ''alpha beta''"
    by code_simp
  show ?thesis
    using visit C7_keywords_by_falling_frequency [OF visit, of 1] by blast
qed

text \<open>
  The text \<open>alpha beta\<close> has two tokens of frequency 1. When the map is visited in the
  order \<open>beta\<close>, \<open>alpha\<close>, the first keyword is \<open>beta\<close>; the order of first occurrence,
  which the claim prescribes, gives \<open>alpha\<close>.
\<close>

theorem C7_counterexample:
  "visits_keys_of [''beta'', ''alpha''] ''alpha beta''
   \<and> ExtractKeywords [''beta'', ''alpha''] ''alpha beta'' 1 = [''beta'']
   \<and> ExtractKeywords_spec ''alpha beta'' 1 = [''alpha'']"
  by code_simp





text \<open>
  C10 (amended): when the resume skills contain the empty string, every job skill of a
  list of non-empty job skills is reported as matched, in the order given, and the
  missing list is empty; the percentage is 100 when there is at least one job skill and
  0 for the empty list of job skills.
\<close>

theorem C10_empty_resume_skill_matches_all:
  assumes "[] \<in> set resumeSkills" and "list_all (\<lambda>s. s \<noteq> []) jobSkills"
  shows "CalculateSkillMatch resumeSkills jobSkills
           = (if jobSkills = [] then 0 else 100, jobSkills, [])"
proof -
  have "[] \<in> set (map ToLower resumeSkills)"
    using assms(1) by (force simp: ToLower_Nil)
  then have "skill_loop (map ToLower resumeSkills) jobSkills ([], []) = (jobSkills, [])"
    using skill_loop_all_matched [of "map ToLower resumeSkills" jobSkills "[]" "[]"] by simp
  then show ?thesis
    by (simp add: CalculateSkillMatch_def)
qed

theorem C10_witness:
  "[] \<in> set ['''', ''java''] \<and> list_all (\<lambda>s. s \<noteq> []) [''go'', ''Rust'']
   \<and> CalculateSkillMatch ['''', ''java''] [''go'', ''Rust''] = (100, [''go'', ''Rust''], [])"
  using C10_empty_resume_skill_matches_all [of "['''', ''java'']" "[''go'', ''Rust'']"]
  by simp

theorem C10_counterexample:
  "[] \<in> set [''''] \<and> CalculateSkillMatch [''''] [] = (0, [], [])
   \<and> fst (CalculateSkillMatch [''''] []) \<noteq> 100"
  by (simp add: CalculateSkillMatch_def)

end
